theory Spec2Isabelle
  imports Main "HOL-Library.Word"
begin

section \<open>JavaScript values used by FxRunner\<close>

text \<open>
  A JavaScript string is a sequence of UTF-16 code units. The escaping done by
  \<open>sendCommand\<close> writes U+FF02, which does not fit an 8-bit \<open>char\<close>, so strings are
  lists of 16-bit words. \<open>js\<close> turns an ASCII literal into such a string.
\<close>

type_synonym jsstring = "16 word list"

definition js :: "string \<Rightarrow> jsstring" where
  "js s = map of_char s"

definition dquote :: "16 word" where "dquote = 0x22"
definition space :: "16 word" where "space = 0x20"
definition newline :: "16 word" where "newline = 0x0A"
definition backslash :: "16 word" where "backslash = 0x5C"
definition fullwidth_quote :: "16 word" where "fullwidth_quote = 0xFF02"

text \<open>\<open>Array.prototype.join\<close> on an array of strings.\<close>

fun join :: "jsstring \<Rightarrow> jsstring list \<Rightarrow> jsstring" where
  "join sep [] = []"
| "join sep [x] = x"
| "join sep (x # y # ys) = x @ sep @ join sep (y # ys)"

text \<open>\<open>String.prototype.includes\<close>.\<close>

fun startsWith :: "jsstring \<Rightarrow> jsstring \<Rightarrow> bool" where
  "startsWith hay [] = True"
| "startsWith [] (n # ns) = False"
| "startsWith (h # hs) (n # ns) = (h = n \<and> startsWith hs ns)"

fun includes_str :: "jsstring \<Rightarrow> jsstring \<Rightarrow> bool" where
  "includes_str [] needle = (needle = [])"
| "includes_str (h # hs) needle = (startsWith (h # hs) needle \<or> includes_str hs needle)"

text \<open>
  The regular expression \<open>/^\w+$/\<close> (no flags): one or more of \<open>A-Z a-z 0-9 _\<close>
  and nothing else; without the \<open>m\<close> flag \<open>$\<close> matches at the end of input only.
\<close>

definition is_word_char :: "16 word \<Rightarrow> bool" where
  "is_word_char c \<longleftrightarrow>
     (0x30 \<le> c \<and> c \<le> 0x39) \<or> (0x41 \<le> c \<and> c \<le> 0x5A) \<or> c = 0x5F \<or> (0x61 \<le> c \<and> c \<le> 0x7A)"

definition word_only :: "jsstring \<Rightarrow> bool" where
  "word_only x \<longleftrightarrow> x \<noteq> [] \<and> list_all is_word_char x"

subsection \<open>Numbers as text\<close>

text \<open>
  A JavaScript number is a double. The numbers \<open>sendCommand\<close> accepts pass
  \<open>Number.isInteger\<close>, so each is given by the integer it equals. Not every integer
  is a double: below \<open>2^53\<close> all are, above only the multiples of the spacing
  \<open>2^(b - 53)\<close>, where \<open>b\<close> is the bit length. \<open>to_double\<close> rounds a non-negative
  integer to the nearest double, ties to the even significand (the exponent range is
  not limited here; a value the code can hold is below \<open>2^1024\<close>).
\<close>

fun digits :: "nat \<Rightarrow> jsstring" where
  "digits n = (if n < 10 then [of_nat (48 + n)] else digits (n div 10) @ [of_nat (48 + n mod 10)])"

declare digits.simps [simp del]

fun bit_length :: "nat \<Rightarrow> nat" where
  "bit_length n = (if n = 0 then 0 else Suc (bit_length (n div 2)))"

declare bit_length.simps [simp del]

definition to_double :: "nat \<Rightarrow> nat" where
  "to_double m =
     (if m < 2 ^ 53 then m
      else
        let u = 2 ^ (bit_length m - 53); q = m div u; r = m mod u in
        if 2 * r < u then q * u
        else if u < 2 * r then (q + 1) * u
        else if even q then q * u
        else (q + 1) * u)"

text \<open>
  \<open>Number::toString\<close> of ECMAScript, radix 10, on an integer-valued double \<open>x\<close> (it is
  what a template literal and \<open>toString()\<close> apply, and \<open>JSON.stringify\<close> to a number).
  It prints the fewest significant digits that read back as \<open>x\<close>, the closest such
  value if there are two, and pads with zeros: \<open>shortest x p\<close> tries the multiples of
  \<open>10^p\<close> next to \<open>x\<close>, for \<open>p\<close> from the number of digits of \<open>x\<close> less one down to 1,
  and ends with \<open>x\<close> itself. From \<open>10^21\<close> on the result is in exponent notation.
\<close>

fun shortest :: "nat \<Rightarrow> nat \<Rightarrow> nat" where
  "shortest x 0 = x"
| "shortest x (Suc p) =
     (let w = 10 ^ Suc p; lo = (x div w) * w; hi = lo + w in
      if to_double lo = x \<and> to_double hi = x then
        (if x - lo < hi - x then lo
         else if hi - x < x - lo then hi
         else if even (x div w) then lo
         else hi)
      else if to_double lo = x then lo
      else if to_double hi = x then hi
      else shortest x p)"

definition exponent_form :: "nat \<Rightarrow> jsstring" where
  "exponent_form v =
     (let ds = digits v;
          s = rev (dropWhile (\<lambda>c. c = 0x30) (rev ds))
      in (case s of
            [] \<Rightarrow> []
          | d # rest \<Rightarrow> (if rest = [] then [d] else d # 0x2E # rest))
         @ [0x65, 0x2B] @ digits (length ds - 1))"

definition nat_toString :: "nat \<Rightarrow> jsstring" where
  "nat_toString x =
     (let v = shortest x (length (digits x) - 1) in
      if v < 10 ^ 21 then digits v else exponent_form v)"

definition Number_toString :: "int \<Rightarrow> jsstring" where
  "Number_toString n = (if n < 0 then 0x2D # nat_toString (nat (- n)) else nat_toString (nat n))"

subsection \<open>JSON.stringify\<close>

text \<open>
  The objects handed to \<open>sendCommand\<close> are data trees. \<open>JObj\<close> lists the own
  enumerable properties in enumeration order; numbers in a tree are integers.
\<close>

datatype json =
    JNull
  | JBool bool
  | JNum int
  | JStr jsstring
  | JArr "json list"
  | JObj "(jsstring \<times> json) list"

definition hexdigit :: "nat \<Rightarrow> 16 word" where
  "hexdigit d = (if d < 10 then of_nat (48 + d) else of_nat (87 + d))"

definition UnicodeEscape :: "16 word \<Rightarrow> jsstring" where
  "UnicodeEscape c =
     [backslash, 0x75, hexdigit (unat c div 4096), hexdigit (unat c div 256 mod 16),
      hexdigit (unat c div 16 mod 16), hexdigit (unat c mod 16)]"

definition is_lead_surrogate :: "16 word \<Rightarrow> bool" where
  "is_lead_surrogate c \<longleftrightarrow> 0xD800 \<le> c \<and> c \<le> 0xDBFF"

definition is_trail_surrogate :: "16 word \<Rightarrow> bool" where
  "is_trail_surrogate c \<longleftrightarrow> 0xDC00 \<le> c \<and> c \<le> 0xDFFF"

text \<open>One code point that is not part of a surrogate pair, as QuoteJSONString writes it.\<close>

definition quote_unit :: "16 word \<Rightarrow> jsstring" where
  "quote_unit c =
     (if c = 0x08 then [backslash, 0x62]
      else if c = 0x09 then [backslash, 0x74]
      else if c = 0x0A then [backslash, 0x6E]
      else if c = 0x0C then [backslash, 0x66]
      else if c = 0x0D then [backslash, 0x72]
      else if c = 0x22 then [backslash, 0x22]
      else if c = 0x5C then [backslash, backslash]
      else if c < 0x20 \<or> is_lead_surrogate c \<or> is_trail_surrogate c then UnicodeEscape c
      else [c])"

fun quote_units :: "jsstring \<Rightarrow> jsstring" where
  "quote_units [] = []"
| "quote_units [c] = quote_unit c"
| "quote_units (c # d # cs) =
     (if is_lead_surrogate c \<and> is_trail_surrogate d then c # d # quote_units cs
      else quote_unit c @ quote_units (d # cs))"

definition QuoteJSONString :: "jsstring \<Rightarrow> jsstring" where
  "QuoteJSONString x = [dquote] @ quote_units x @ [dquote]"

fun JSON_stringify :: "json \<Rightarrow> jsstring" where
  "JSON_stringify JNull = js ''null''"
| "JSON_stringify (JBool b) = (if b then js ''true'' else js ''false'')"
| "JSON_stringify (JNum n) = Number_toString n"
| "JSON_stringify (JStr x) = QuoteJSONString x"
| "JSON_stringify (JArr xs) = js ''['' @ join (js '','') (map JSON_stringify xs) @ js '']''"
| "JSON_stringify (JObj kvs) =
     js ''{'' @ join (js '','') (map (\<lambda>(k, v). QuoteJSONString k @ js '':'' @ JSON_stringify v) kvs)
       @ js ''}''"

text \<open>
  A value as \<open>sendCommand\<close> tells its arguments apart: by \<open>typeof\<close>, \<open>arg !== null\<close>
  and \<open>Number.isInteger\<close>. The integer in \<open>VInt\<close> is the value of a double, so
  \<open>to_double\<close> maps its magnitude to itself.
\<close>

datatype jsval =
    VStr jsstring  \<comment> \<open>\<open>typeof x === 'string'\<close>\<close>
  | VObj json      \<comment> \<open>\<open>typeof x === 'object' && x !== null\<close>, with its JSON tree\<close>
  | VInt int       \<comment> \<open>a number for which \<open>Number.isInteger\<close> holds, by its value\<close>
  | VNonInt        \<comment> \<open>any other number: a fraction, \<open>NaN\<close>, an infinity\<close>
  | VOther         \<comment> \<open>\<open>undefined\<close>, \<open>null\<close>, a boolean, bigint, symbol or function\<close>

datatype exn =
    Error jsstring  \<comment> \<open>\<open>throw new Error(message)\<close>\<close>
  | TypeError       \<comment> \<open>a property read on \<open>undefined\<close>\<close>
  | ReferenceError  \<comment> \<open>an assignment to an undeclared name in strict code\<close>

section \<open>The supervisor's state\<close>

text \<open>
  A lifecycle timestamp is \<open>false\<close> until an event stores \<open>now()\<close> in it. \<open>now()\<close>
  (from \<open>@lib/misc\<close>, not part of this module) is the Unix time in seconds; every
  function that reads the clock takes the reading as an argument. The code tests the
  fields by truthiness, under which the number 0 counts like \<open>false\<close>.
\<close>

datatype stamp = Absent | At int

fun truthy :: "stamp \<Rightarrow> bool" where
  "truthy Absent = False"
| "truthy (At t) = (t \<noteq> 0)"

record stamps =
  start :: stamp
  kill :: stamp
  exit :: stamp
  close :: stamp

record lifecycle =
  pid :: jsstring
  timestamps :: stamps

text \<open>\<open>Object.keys(x.timestamps)\<close>: the four keys in the order the literal creates them.\<close>

datatype tskey = Kstart | Kkill | Kexit | Kclose

definition timestamps_keys :: "tskey list" where
  "timestamps_keys = [Kstart, Kkill, Kexit, Kclose]"

fun key_name :: "tskey \<Rightarrow> jsstring" where
  "key_name Kstart = js ''start''"
| "key_name Kkill = js ''kill''"
| "key_name Kexit = js ''exit''"
| "key_name Kclose = js ''close''"

fun stamp_of :: "stamps \<Rightarrow> tskey \<Rightarrow> stamp" where
  "stamp_of ts Kstart = start ts"
| "stamp_of ts Kkill = kill ts"
| "stamp_of ts Kexit = exit ts"
| "stamp_of ts Kclose = close ts"

text \<open>
  The handle returned by \<open>child_process.spawn\<close>; its \<open>pid\<close> is \<open>undefined\<close> when the
  operating system did not create the process.
\<close>

record child =
  child_pid :: "nat option"

record spawn_vars =
  command :: jsstring
  args :: "jsstring list"

datatype level = Lerror | Lwarn | Lok | Llog | Lverbose_error | Lverbose_log

text \<open>
  Every call the module makes to something outside itself, in the order made: the
  console, the child process and its streams, timers, and the other modules of
  \<open>txCore\<close>. \<open>trace\<close> in the state below collects them, oldest first.
\<close>

datatype effect =
    Console level jsstring
  | ConsoleDir
  | StdoutWrite jsstring
  | ResetToken
  | ResetMonitorStats
  | BufferPlayerlist "jsstring option"
  | SendAnnouncement jsstring jsstring
  | SpawnProcess spawn_vars "jsstring option" child
  | LogFxserverBoot jsstring
  | PushRefresh
  | AttachListeners nat
  | StdinWrite child jsstring
  | LogAdminCommand jsstring jsstring
  | LogSystemCommand jsstring
  | Sleep int
  | ChildKill child
  | ResourcesHandleServerStop
  | PlayerlistHandleServerStop "jsstring option"
  | LogServerClose jsstring
  | SetTimeoutWarn jsstring int

record fxrunner =
  spawnVariables :: "spawn_vars option"
  fxChild :: "child option"
  restartSpawnDelayOverride :: int
  history :: "lifecycle list"
  lastKillRequest :: int
  fxServerHost :: "jsstring option"
  currentMutex :: "jsstring option"
  trace :: "effect list"

text \<open>The fields of the global \<open>txConfig\<close> that the module reads.\<close>

record txConfig =
  shutdownNoticeDelayMs :: int  \<comment> \<open>\<open>txConfig.server.shutdownNoticeDelayMs\<close>\<close>
  restartSpawnDelayMs :: int    \<comment> \<open>\<open>txConfig.server.restartSpawnDelayMs\<close>\<close>
  dataPath :: "jsstring option" \<comment> \<open>\<open>txConfig.server.dataPath\<close>\<close>
  cfgPath :: "jsstring option"  \<comment> \<open>\<open>txConfig.server.cfgPath\<close>\<close>
  serverName :: jsstring        \<comment> \<open>\<open>txConfig.general.serverName\<close>\<close>

text \<open>
  The state the constructor leaves. (It first refuses a \<open>txConfig.fxRunner.shutdownNoticeDelayMs\<close>
  outside 0 to 30000 by throwing; that check reads no field of the state.)
\<close>

definition constructor :: fxrunner where
  "constructor =
     \<lparr>spawnVariables = None, fxChild = None, restartSpawnDelayOverride = 0, history = [],
      lastKillRequest = 0, fxServerHost = None, currentMutex = None, trace = []\<rparr>"

definition emit :: "effect list \<Rightarrow> fxrunner \<Rightarrow> fxrunner" where
  "emit es s = s\<lparr>trace := trace s @ es\<rparr>"

text \<open>\<open>Boolean(x)\<close> on a string that may be \<open>null\<close> or \<open>undefined\<close>.\<close>

fun truthy_str :: "jsstring option \<Rightarrow> bool" where
  "truthy_str None = False"
| "truthy_str (Some x) = (x \<noteq> [])"

definition isConfigured :: "txConfig \<Rightarrow> bool" where
  "isConfigured cfg \<longleftrightarrow> truthy_str (dataPath cfg) \<and> truthy_str (cfgPath cfg)"

section \<open>The command API\<close>

text \<open>
  What \<open>stdin.write\<close> does is the stream's business: it returns a boolean (false under
  back-pressure) or throws.
\<close>

datatype write_outcome = WriteReturns bool | WriteThrows

datatype author = NoAuthor | AuthorStr jsstring | AuthorOther

definition sendRawCommand ::
  "write_outcome \<Rightarrow> jsstring \<Rightarrow> author \<Rightarrow> fxrunner \<Rightarrow> (exn + bool) \<times> fxrunner" where
  "sendRawCommand wr cmd auth s =
     (if auth = AuthorOther then (Inl (Error (js ''Expected author as String!'')), s)
      else case fxChild s of
        None \<Rightarrow> (Inr False, s)
      | Some ch \<Rightarrow>
          (case wr of
             WriteThrows \<Rightarrow>
               (Inr False, emit [Console Lerror (js ''Error writing to fxChild's stdin.''), ConsoleDir] s)
           | WriteReturns success \<Rightarrow>
               (Inr success,
                emit [StdinWrite ch (cmd @ [newline]),
                      (case auth of
                         AuthorStr a \<Rightarrow> if a \<noteq> [] then LogAdminCommand a cmd else LogSystemCommand cmd
                       | _ \<Rightarrow> LogSystemCommand cmd)] s)))"

definition sanitizeArgString :: "jsstring \<Rightarrow> jsstring" where
  "sanitizeArgString x =
     map (\<lambda>c. if c = newline then space else c) (map (\<lambda>c. if c = dquote then fullwidth_quote else c) x)"

text \<open>The loop of \<open>sendCommand\<close> over \<open>cmdArgs\<close>, with \<open>rawInput\<close> as accumulator.\<close>

fun sendCommand_args :: "jsstring \<Rightarrow> jsval list \<Rightarrow> exn + jsstring" where
  "sendCommand_args rawInput [] = Inr rawInput"
| "sendCommand_args rawInput (VStr arg # rest) =
     (if arg = [] then sendCommand_args (rawInput @ [space, dquote, dquote]) rest
      else if word_only arg then sendCommand_args (rawInput @ [space] @ arg) rest
      else sendCommand_args (rawInput @ [space, dquote] @ sanitizeArgString arg @ [dquote]) rest)"
| "sendCommand_args rawInput (VObj arg # rest) =
     sendCommand_args (rawInput @ [space, dquote] @ sanitizeArgString (JSON_stringify arg) @ [dquote]) rest"
| "sendCommand_args rawInput (VInt arg # rest) =
     sendCommand_args (rawInput @ [space] @ Number_toString arg) rest"
| "sendCommand_args rawInput (arg # rest) = Inl (Error (js ''arg expected to be string or object''))"

text \<open>
  The checks of \<open>sendCommand\<close> after its first line, and the line it builds.
  \<open>cmdArgs\<close> is \<open>None\<close> for a value that is not an array (an omitted argument is the
  empty array).
\<close>

definition sendCommand_rawInput :: "jsval \<Rightarrow> jsval list option \<Rightarrow> exn + jsstring" where
  "sendCommand_rawInput cmdName cmdArgs =
     (case cmdName of
        VStr name \<Rightarrow>
          if name = [] then Inl (Error (js ''cmdName is empty''))
          else (case cmdArgs of
                  None \<Rightarrow> Inl (Error (js ''cmdArgs is not an array''))
                | Some as \<Rightarrow>
                    if \<not> word_only name then Inl (Error (js ''invalid cmdName string''))
                    else sendCommand_args (sanitizeArgString name) as)
      | _ \<Rightarrow> Inl (Error (js ''cmdName is empty'')))"

definition sendCommand ::
  "write_outcome \<Rightarrow> jsval \<Rightarrow> jsval list option \<Rightarrow> author \<Rightarrow> fxrunner \<Rightarrow> (exn + bool) \<times> fxrunner" where
  "sendCommand wr cmdName cmdArgs auth s =
     (if fxChild s = None then (Inr False, s)
      else case sendCommand_rawInput cmdName cmdArgs of
        Inl e \<Rightarrow> (Inl e, s)
      | Inr rawInput \<Rightarrow> sendRawCommand wr rawInput auth s)"

definition sendEvent ::
  "write_outcome \<Rightarrow> jsval \<Rightarrow> json \<Rightarrow> fxrunner \<Rightarrow> (exn + bool) \<times> fxrunner" where
  "sendEvent wr eventType data s =
     (case eventType of
        VStr t \<Rightarrow>
          if t = [] then (Inl (Error (js ''invalid eventType'')), s)
          else (case sendCommand wr (VStr (js ''txaEvent'')) (Some [VStr t, VObj data]) NoAuthor s of
                  (Inl e, s') \<Rightarrow>
                    (Inr False,
                     emit [Console Lverbose_error (js ''Error writing firing server event '' @ t), ConsoleDir] s')
                | (Inr r, s') \<Rightarrow> (Inr r, s'))
      | _ \<Rightarrow> (Inl (Error (js ''invalid eventType'')), s))"

section \<open>The status projection\<close>

text \<open>
  \<open>Object.keys(x.timestamps).filter((k) => !cur.timestamps[k])\<close>. Both places that
  compute it test the fields of the last record, also the one that takes the keys from
  the record before it; the keys are the same four.
\<close>

definition pending_keys :: "lifecycle \<Rightarrow> tskey list" where
  "pending_keys cur = filter (\<lambda>k. \<not> truthy (stamp_of (timestamps cur) k)) timestamps_keys"

definition getStatus :: "fxrunner \<Rightarrow> exn + jsstring" where
  "getStatus s =
     (if length (history s) = 0 then Inr (js ''not started'')
      else
        let cur = history s ! (length (history s) - 1) in
        if \<not> truthy (start (timestamps cur)) \<and> length (history s) = 1 then
          Inl (Error (js ''This should NOT happen. Let's see how long people will take to find this...''))
        else if \<not> truthy (start (timestamps cur)) then
          (let pending = pending_keys cur in
           if length pending = 0 then Inr (js ''spawn ready'')
           else Inr (js ''spawn awaiting last: '' @ join (js '', '') (map key_name pending)))
        else if truthy (kill (timestamps cur)) then
          (let pending = pending_keys cur in
           if length pending \<noteq> 0 then Inr (js ''kill pending: '' @ join (js '', '') (map key_name pending))
           else Inr (js ''killed''))
        else if truthy (exit (timestamps cur)) \<and> \<not> truthy (close (timestamps cur)) then Inr (js ''closing'')
        else if truthy (exit (timestamps cur)) \<and> truthy (close (timestamps cur)) then Inr (js ''closed'')
        else Inr (js ''spawned''))"

section \<open>Spawning\<close>

text \<open>
  An \<open>async\<close> method runs in segments: from its entry or from the point an \<open>await\<close>
  resumes, up to the next \<open>await\<close> or its return. Other calls and event handlers run
  between the segments, never inside one. Each segment is a function on the state; a
  segment that stops at an \<open>await\<close> says \<open>Suspends\<close>.
\<close>

datatype 'r segment = Finished 'r | Suspends

text \<open>What \<open>validateFixServerConfig\<close> (another module) resolves to, or the message it rejects with.\<close>

record validation_result =
  errors :: "jsstring option"
  warnings :: "jsstring option"
  connectEndpoint :: jsstring

datatype validation = Resolved validation_result | Rejected jsstring

definition msg_already_started :: jsstring where
  "msg_already_started = js ''The server is already started.''"

definition msg_not_configured :: jsstring where
  "msg_not_configured = js ''Cannot start the server with missing configuration (serverDataPath || cfgPath).''"

definition errors_header :: jsstring where
  "errors_header = js ''**Unable to start the server due to error(s) in your config file(s):**'' @ [newline]"

definition warnings_header :: jsstring where
  "warnings_header = js ''**Warning regarding your configuration file(s):**'' @ [newline]"

text \<open>
  \<open>spawnServer\<close> up to \<open>await validateFixServerConfig(...)\<close>. \<open>mutex\<close> is what
  \<open>genMutex()\<close> returns; \<open>sv\<close> is what \<open>setupVariables\<close> computes from the environment
  and stores in \<open>this.spawnVariables\<close>.
\<close>

definition spawnServer_begin ::
  "txConfig \<Rightarrow> jsstring \<Rightarrow> spawn_vars \<Rightarrow> fxrunner \<Rightarrow> (exn + jsstring option) segment \<times> fxrunner" where
  "spawnServer_begin cfg mutex sv s =
     (if fxChild s \<noteq> None then
        (Finished (Inr (Some msg_already_started)), emit [Console Lerror msg_already_started] s)
      else
        let s1 = emit [ResetToken] s;
            s2 = s1\<lparr>currentMutex := Some mutex\<rparr>;
            s3 = s2\<lparr>spawnVariables := Some sv\<rparr>;
            s4 = emit [Console Lverbose_log (js ''Spawn Variables: '' @ join [space] (args sv))] s3
        in
        if spawnVariables s4 = None then
          (Finished (Inr (Some (js ''this.spawnVariables is not set.''))),
           emit [Console Lerror (js ''this.spawnVariables is not set.'')] s4)
        else if \<not> isConfigured cfg then
          (Finished (Inr (Some msg_not_configured)), emit [Console Lerror msg_not_configured] s4)
        else (Suspends, s4))"

text \<open>
  \<open>spawnServer\<close> from the point the validator settles. \<open>ch\<close> is the handle that
  \<open>child_process.spawn\<close> returns, \<open>now\<close> the clock when the record is pushed.
\<close>

definition spawnServer_validated ::
  "txConfig \<Rightarrow> validation \<Rightarrow> bool \<Rightarrow> child \<Rightarrow> int \<Rightarrow> fxrunner \<Rightarrow> (exn + jsstring option) \<times> fxrunner" where
  "spawnServer_validated cfg v announce ch now s =
     (case v of
        Rejected message \<Rightarrow>
          (let errMsg = js ''server.cfg error: '' @ message in
           (Inr (Some errMsg),
            emit ([Console Lerror errMsg] @
                  (if includes_str message (js ''unreadable'') then
                     [Console Lerror (js ''That is the file where you configure your server and start resources.''),
                      Console Lerror (js ''You likely moved/deleted your server files or copied the txData folder from another server.''),
                      Console Lerror (js ''To fix this issue, open the txAdmin web interface then go to \"Settings > FXServer\" and fix the \"Server Data Folder\" and \"CFG File Path\".'')]
                   else [])) s))
      | Resolved result \<Rightarrow>
          if truthy_str (errors result) then
            (let msg = errors_header @ (case errors result of Some e \<Rightarrow> e | None \<Rightarrow> []) in
             (Inr (Some msg), emit [Console Lerror msg] s))
          else
            let s1 = (if truthy_str (warnings result)
                      then emit [Console Lwarn (warnings_header @ (case warnings result of Some w \<Rightarrow> w | None \<Rightarrow> []))] s
                      else s);
                s2 = s1\<lparr>fxServerHost := Some (connectEndpoint result)\<rparr>;
                s3 = emit [ResetMonitorStats, BufferPlayerlist (currentMutex s2)] s2;
                s4 = (if announce
                      then emit [SendAnnouncement (js ''success'') (js ''server_actions.spawning_discord'')] s3
                      else s3)
            in
            (case spawnVariables s4 of
               None \<Rightarrow> (Inl TypeError, s4)
             | Some sv \<Rightarrow>
                 let s5 = emit [SpawnProcess sv (dataPath cfg) ch] (s4\<lparr>fxChild := Some ch\<rparr>) in
                 (case child_pid ch of
                    None \<Rightarrow> (Inl (Error (js ''Executon of \"'' @ command sv @ js ''\" failed.'')), s5)
                  | Some n \<Rightarrow>
                      let p = Number_toString (int n);
                          s6 = emit [Console Lok (js ''>> ['' @ p @ js ''] FXServer Started!''), LogFxserverBoot p] s5;
                          s7 = s6\<lparr>history := history s6 @
                                 [\<lparr>pid = p,
                                   timestamps = \<lparr>start = At now, kill = Absent, exit = Absent, close = Absent\<rparr>\<rparr>]\<rparr>;
                          historyIndex = length (history s7) - 1;
                          s8 = emit [PushRefresh, AttachListeners historyIndex] s7
                      in (Inr None, s8))))"

subsection \<open>The listeners attached to the child\<close>

text \<open>
  Each listener closes over \<open>pid\<close> and \<open>historyIndex\<close> of its spawn; they are its first
  two arguments here. \<open>this.history[historyIndex]\<close> on an index past the end is
  \<open>undefined\<close>, and reading \<open>timestamps\<close> of it throws.
\<close>

definition on_close :: "jsstring \<Rightarrow> nat \<Rightarrow> jsstring \<Rightarrow> int \<Rightarrow> fxrunner \<Rightarrow> (exn + unit) \<times> fxrunner" where
  "on_close p historyIndex printableCode now s =
     (let s1 = emit [Console Lwarn (js ''>> ['' @ p @ js ''] FXServer Closed ('' @ printableCode @ js '').'')] s in
      if historyIndex < length (history s1) then
        (let r = history s1 ! historyIndex;
             s2 = s1\<lparr>history := (history s1)[historyIndex := r\<lparr>timestamps := (timestamps r)\<lparr>close := At now\<rparr>\<rparr>]\<rparr>
         in (Inr (), emit [PushRefresh] s2))
      else (Inl TypeError, s1))"

definition on_disconnect :: "jsstring \<Rightarrow> fxrunner \<Rightarrow> fxrunner" where
  "on_disconnect p s = emit [Console Lwarn (js ''>> ['' @ p @ js ''] FXServer Disconnected.'')] s"

definition on_error :: "jsstring \<Rightarrow> fxrunner \<Rightarrow> fxrunner" where
  "on_error p s = emit [Console Lwarn (js ''>> ['' @ p @ js ''] FXServer Errored:''), ConsoleDir] s"

text \<open>A timestamp in a subtraction: \<open>false\<close> converts to 0.\<close>

fun stamp_number :: "stamp \<Rightarrow> int" where
  "stamp_number Absent = 0"
| "stamp_number (At t) = t"

definition on_exit :: "jsstring \<Rightarrow> nat \<Rightarrow> int \<Rightarrow> fxrunner \<Rightarrow> (exn + unit) \<times> fxrunner" where
  "on_exit p historyIndex now s =
     (let s1 = emit [StdoutWrite [newline], Console Lwarn (js ''>> ['' @ p @ js ''] FXServer Exited.'')] s in
      if historyIndex < length (history s1) then
        (let r = history s1 ! historyIndex;
             r' = r\<lparr>timestamps := (timestamps r)\<lparr>exit := At now\<rparr>\<rparr>;
             s2 = s1\<lparr>history := (history s1)[historyIndex := r']\<rparr>;
             s3 = emit [PushRefresh] s2
         in if stamp_number (exit (timestamps r')) - stamp_number (start (timestamps r')) \<le> 5
            then (Inr (), emit [SetTimeoutWarn (js ''FXServer didn't start. This is not an issue with txAdmin.'') 500] s3)
            else (Inr (), s3))
      else (Inl TypeError, s1))"

section \<open>Killing and restarting\<close>

definition msg_in_progress :: jsstring where
  "msg_in_progress = js ''Restart already in progress.''"

definition msg_cannot_kill :: jsstring where
  "msg_cannot_kill = js ''Couldn't kill the server. Perhaps What Is Dead May Never Die.''"

definition reasonString :: "jsstring option \<Rightarrow> jsstring" where
  "reasonString reason = (case reason of None \<Rightarrow> js ''no reason provided'' | Some r \<Rightarrow> r)"

text \<open>The \<open>catch\<close> block of \<open>killServer\<close>.\<close>

definition killServer_catch :: "fxrunner \<Rightarrow> jsstring option \<times> fxrunner" where
  "killServer_catch s =
     (Some msg_cannot_kill, (emit [Console Lerror msg_cannot_kill, ConsoleDir] s)\<lparr>fxChild := None\<rparr>)"

text \<open>
  \<open>killServer\<close> up to \<open>await sleep(...)\<close>. \<open>msTimestamp\<close> is \<open>Date.now()\<close>, \<open>message\<close>
  what the translator renders, \<open>wr\<close> what the write to the child's stdin does. The
  requested sleep is the last effect of the segment.
\<close>

definition killServer_begin ::
  "txConfig \<Rightarrow> int \<Rightarrow> jsstring option \<Rightarrow> jsstring option \<Rightarrow> bool \<Rightarrow> jsstring \<Rightarrow> write_outcome \<Rightarrow>
   fxrunner \<Rightarrow> (jsstring option) segment \<times> fxrunner" where
  "killServer_begin cfg msTimestamp reason auth isRestarting message wr s =
     (if msTimestamp - lastKillRequest s < shutdownNoticeDelayMs cfg then (Finished (Some msg_in_progress), s)
      else
        let s1 = s\<lparr>lastKillRequest := msTimestamp\<rparr>;
            messageType = (if isRestarting then js ''restarting'' else js ''stopping'');
            messageColor = (if isRestarting then js ''warning'' else js ''danger'');
            data = JObj [(js ''delay'', JNum (shutdownNoticeDelayMs cfg)),
                         (js ''author'', JStr (case auth of None \<Rightarrow> js ''txAdmin'' | Some a \<Rightarrow> a)),
                         (js ''message'', JStr message)]
        in
        (case sendEvent wr (VStr (js ''serverShuttingDown'')) data s1 of
           (Inl e, s2) \<Rightarrow> (case killServer_catch s2 of (r, s3) \<Rightarrow> (Finished r, s3))
         | (Inr sent, s2) \<Rightarrow>
             let s3 = emit [SendAnnouncement messageColor (js ''server_actions.'' @ messageType @ js ''_discord'')] s2;
                 s4 = emit [Sleep (max (shutdownNoticeDelayMs cfg) 250)] s3
             in (Suspends, s4)))"

text \<open>\<open>killServer\<close> from the point the sleep is over; \<open>now\<close> is the clock at the stamping.\<close>

definition killServer_cleanup :: "jsstring option \<Rightarrow> fxrunner \<Rightarrow> jsstring option \<times> fxrunner" where
  "killServer_cleanup reason s =
     (None, emit [ResourcesHandleServerStop, PlayerlistHandleServerStop (currentMutex s),
                  LogServerClose (reasonString reason)] s)"

definition killServer_end :: "int \<Rightarrow> jsstring option \<Rightarrow> fxrunner \<Rightarrow> jsstring option \<times> fxrunner" where
  "killServer_end now reason s =
     (case fxChild s of
        Some ch \<Rightarrow>
          let s1 = emit [ChildKill ch] s;
              s2 = s1\<lparr>fxChild := None\<rparr>
          in
          if length (history s2) = 0 then killServer_catch s2
          else
            let i = length (history s2) - 1;
                r = history s2 ! i;
                s3 = s2\<lparr>history := (history s2)[i := r\<lparr>timestamps := (timestamps r)\<lparr>kill := At now\<rparr>\<rparr>]\<rparr>
            in killServer_cleanup reason s3
      | None \<Rightarrow> killServer_cleanup reason s)"

text \<open>The part of \<open>restartServer\<close> between the kill and the spawn: the choice of the delay.\<close>

definition restartServer_delay :: "txConfig \<Rightarrow> fxrunner \<Rightarrow> fxrunner" where
  "restartServer_delay cfg s =
     (if restartSpawnDelayOverride s \<noteq> 0 then
        emit [Console Lwarn (js ''Restarting the fxserver with delay override '' @
                Number_toString (restartSpawnDelayOverride s)),
              Sleep (restartSpawnDelayOverride s)] s
      else emit [Sleep (restartSpawnDelayMs cfg)] s)"

subsection \<open>Whole calls, when nothing else runs in between\<close>

text \<open>What the environment supplies to one call of \<open>restartServer\<close>.\<close>

record host =
  dateNow :: int
  translated :: jsstring
  stdinWrite :: write_outcome
  killClock :: int
  mutex :: jsstring
  vars :: spawn_vars
  validated :: validation
  spawned :: child
  spawnClock :: int

definition spawnServer :: "txConfig \<Rightarrow> host \<Rightarrow> bool \<Rightarrow> fxrunner \<Rightarrow> (exn + jsstring option) \<times> fxrunner" where
  "spawnServer cfg h announce s =
     (case spawnServer_begin cfg (mutex h) (vars h) s of
        (Finished r, s1) \<Rightarrow> (r, s1)
      | (Suspends, s1) \<Rightarrow> spawnServer_validated cfg (validated h) announce (spawned h) (spawnClock h) s1)"

definition killServer ::
  "txConfig \<Rightarrow> host \<Rightarrow> jsstring option \<Rightarrow> jsstring option \<Rightarrow> bool \<Rightarrow> fxrunner \<Rightarrow> jsstring option \<times> fxrunner" where
  "killServer cfg h reason auth isRestarting s =
     (case killServer_begin cfg (dateNow h) reason auth isRestarting (translated h) (stdinWrite h) s of
        (Finished r, s1) \<Rightarrow> (r, s1)
      | (Suspends, s1) \<Rightarrow> killServer_end (killClock h) reason s1)"

definition restartServer ::
  "txConfig \<Rightarrow> host \<Rightarrow> jsstring option \<Rightarrow> jsstring option \<Rightarrow> fxrunner \<Rightarrow> (exn + jsstring option) \<times> fxrunner" where
  "restartServer cfg h reason auth s =
     (case killServer cfg h reason auth True s of
        (killError, s1) \<Rightarrow>
          if truthy_str killError then (Inr killError, s1)
          else spawnServer cfg h False (restartServer_delay cfg s1))"

section \<open>The black hole for residual stream events\<close>

text \<open>
  \<open>chanEventBlackHole\<close> belongs to the module, not to the class: it reads and writes
  module-level names only. \<open>lastBlackHoleSpewTime\<close> is declared with \<open>let\<close>;
  \<open>lastLogTime\<close> is declared nowhere, so the assignment to it throws in strict code (an
  ES module is strict) and creates a global otherwise. \<open>strict\<close> says which.
\<close>

record module_state =
  lastBlackHoleSpewTime :: int
  lastLogTime :: "int option"
  console_out :: "effect list"

definition module_loaded :: module_state where
  "module_loaded = \<lparr>lastBlackHoleSpewTime = 0, lastLogTime = None, console_out = []\<rparr>"

definition blackHoleSpillMaxInterval :: int where
  "blackHoleSpillMaxInterval = 5000"

definition chanEventBlackHole :: "bool \<Rightarrow> int \<Rightarrow> module_state \<Rightarrow> (exn + unit) \<times> module_state" where
  "chanEventBlackHole strict currentTime m =
     (if currentTime - lastBlackHoleSpewTime m > blackHoleSpillMaxInterval then
        let m1 = m\<lparr>console_out := console_out m @
                    [Console Lverbose_error (js ''StdIo unexpected event:''), ConsoleDir]\<rparr>
        in if strict then (Inl ReferenceError, m1)
           else (Inr (), m1\<lparr>lastLogTime := Some currentTime\<rparr>)
      else (Inr (), m))"

text \<open>A sequence of such events, given by their \<open>Date.now()\<close> readings.\<close>

fun blackHole_events :: "bool \<Rightarrow> int list \<Rightarrow> module_state \<Rightarrow> module_state" where
  "blackHole_events strict [] m = m"
| "blackHole_events strict (t # ts) m = blackHole_events strict ts (snd (chanEventBlackHole strict t m))"

definition diagnostics :: "module_state \<Rightarrow> nat" where
  "diagnostics m = length (filter (\<lambda>e. e = Console Lverbose_error (js ''StdIo unexpected event:'')) (console_out m))"

section \<open>Everything that can happen to the supervisor\<close>

text \<open>
  One event is one segment of a method or one listener call, with what the environment
  supplies to it. Any segment may follow any other: the continuation of a call runs
  whenever its timer or promise fires, and listeners run whenever the child emits.
\<close>

datatype event =
    SpawnBegin jsstring spawn_vars
  | SpawnValidated validation bool child int
  | OnClose jsstring nat jsstring int
  | OnExit jsstring nat int
  | OnDisconnect jsstring
  | OnError jsstring
  | KillBegin int "jsstring option" "jsstring option" bool jsstring write_outcome
  | KillEnd int "jsstring option"
  | RestartDelay
  | SendCommand write_outcome jsval "jsval list option" author
  | SendEvent write_outcome jsval json
  | SendRawCommand write_outcome jsstring author

fun step :: "txConfig \<Rightarrow> event \<Rightarrow> fxrunner \<Rightarrow> fxrunner" where
  "step cfg (SpawnBegin m sv) s = snd (spawnServer_begin cfg m sv s)"
| "step cfg (SpawnValidated v announce ch now) s = snd (spawnServer_validated cfg v announce ch now s)"
| "step cfg (OnClose p i code now) s = snd (on_close p i code now s)"
| "step cfg (OnExit p i now) s = snd (on_exit p i now s)"
| "step cfg (OnDisconnect p) s = on_disconnect p s"
| "step cfg (OnError p) s = on_error p s"
| "step cfg (KillBegin t reason auth isRestarting message wr) s =
     snd (killServer_begin cfg t reason auth isRestarting message wr s)"
| "step cfg (KillEnd now reason) s = snd (killServer_end now reason s)"
| "step cfg RestartDelay s = restartServer_delay cfg s"
| "step cfg (SendCommand wr cmdName cmdArgs auth) s = snd (sendCommand wr cmdName cmdArgs auth s)"
| "step cfg (SendEvent wr eventType data) s = snd (sendEvent wr eventType data s)"
| "step cfg (SendRawCommand wr cmd auth) s = snd (sendRawCommand wr cmd auth s)"

text \<open>The reading of \<open>now()\<close> an event carries lies after the Unix epoch.\<close>

fun clock_ok :: "event \<Rightarrow> bool" where
  "clock_ok (SpawnValidated v announce ch now) = (0 < now)"
| "clock_ok (OnClose p i code now) = (0 < now)"
| "clock_ok (OnExit p i now) = (0 < now)"
| "clock_ok (KillEnd now reason) = (0 < now)"
| "clock_ok e = True"

fun is_KillBegin :: "event \<Rightarrow> bool" where
  "is_KillBegin (KillBegin t reason auth isRestarting message wr) = True"
| "is_KillBegin e = False"

text \<open>The configuration is a global that may change between events, so each event comes with the one in force.\<close>

fun run :: "(txConfig \<times> event) list \<Rightarrow> fxrunner \<Rightarrow> fxrunner" where
  "run [] s = s"
| "run ((cfg, e) # es) s = run es (step cfg e s)"

inductive reachable :: "fxrunner \<Rightarrow> bool" where
  initial: "reachable constructor"
| after: "reachable s \<Longrightarrow> clock_ok e \<Longrightarrow> reachable (step cfg e s)"

section \<open>Notions the properties are stated with\<close>

text \<open>
  The decimal text of an integer, and the integers that JavaScript calls safe: those of
  magnitude below \<open>2^53\<close>.
\<close>

definition decimal :: "int \<Rightarrow> jsstring" where
  "decimal n = (if n < 0 then 0x2D # digits (nat (- n)) else digits (nat n))"

definition safe_integer :: "int \<Rightarrow> bool" where
  "safe_integer n \<longleftrightarrow> \<bar>n\<bar> < 2 ^ 53"

text \<open>
  The argument encoding as the specification words it: per argument, a space and then
  the empty-string literal, the bare word, the quoted and escaped string, the quoted and
  escaped JSON text, or for an integer the decimal text. The last holds for the safe
  integers only; any other integer is written as the number conversion prints its
  double.
\<close>

definition spec_escape :: "jsstring \<Rightarrow> jsstring" where
  "spec_escape x =
     concat (map (\<lambda>c. if c = dquote then [fullwidth_quote] else if c = newline then [space] else [c]) x)"

definition spec_encode_arg :: "jsval \<Rightarrow> jsstring" where
  "spec_encode_arg a =
     (case a of
        VStr x \<Rightarrow>
          if x = [] then [dquote, dquote]
          else if word_only x then x
          else [dquote] @ spec_escape x @ [dquote]
      | VObj j \<Rightarrow> [dquote] @ spec_escape (JSON_stringify j) @ [dquote]
      | VInt n \<Rightarrow> (if safe_integer n then decimal n else Number_toString n)
      | _ \<Rightarrow> [])"

definition spec_encode :: "jsstring \<Rightarrow> jsval list \<Rightarrow> jsstring" where
  "spec_encode name as = name @ concat (map (\<lambda>a. space # spec_encode_arg a) as)"

text \<open>The three accepted kinds of argument, and a valid command name.\<close>

fun accepted :: "jsval \<Rightarrow> bool" where
  "accepted (VStr x) = True"
| "accepted (VObj j) = True"
| "accepted (VInt n) = True"
| "accepted VNonInt = False"
| "accepted VOther = False"

fun valid_name :: "jsval \<Rightarrow> bool" where
  "valid_name (VStr name) = word_only name"
| "valid_name v = False"

text \<open>
  How a history may change: no record is removed or moved, a record keeps its process
  identifier and its \<open>start\<close>, a set \<open>kill\<close>, \<open>exit\<close> or \<open>close\<close> stays set, and a record
  that is new has \<open>start\<close> set.
\<close>

definition record_kept :: "lifecycle \<Rightarrow> lifecycle \<Rightarrow> bool" where
  "record_kept r r' \<longleftrightarrow>
     pid r' = pid r \<and> start (timestamps r') = start (timestamps r) \<and>
     (truthy (kill (timestamps r)) \<longrightarrow> truthy (kill (timestamps r'))) \<and>
     (truthy (exit (timestamps r)) \<longrightarrow> truthy (exit (timestamps r'))) \<and>
     (truthy (close (timestamps r)) \<longrightarrow> truthy (close (timestamps r')))"

definition history_grows :: "lifecycle list \<Rightarrow> lifecycle list \<Rightarrow> bool" where
  "history_grows h h' \<longleftrightarrow>
     length h \<le> length h' \<and>
     (\<forall>i < length h. record_kept (h ! i) (h' ! i)) \<and>
     (\<forall>i < length h'. length h \<le> i \<longrightarrow> truthy (start (timestamps (h' ! i))))"








definition all_started :: "lifecycle list \<Rightarrow> bool" where
  "all_started h \<longleftrightarrow> list_all (\<lambda>r. truthy (start (timestamps r))) h"

text \<open>The labels \<open>getStatus\<close> is left with when every record has \<open>start\<close> set.\<close>

definition live_label :: "jsstring \<Rightarrow> bool" where
  "live_label l \<longleftrightarrow>
     l = js ''not started'' \<or> l = js ''spawned'' \<or> l = js ''killed'' \<or> l = js ''closing'' \<or>
     l = js ''closed'' \<or> startsWith l (js ''kill pending: '')"

text \<open>The object \<open>killServer\<close> sends with the shutdown notice.\<close>

definition shutdown_data :: "txConfig \<Rightarrow> jsstring option \<Rightarrow> jsstring \<Rightarrow> json" where
  "shutdown_data cfg auth message =
     JObj [(js ''delay'', JNum (shutdownNoticeDelayMs cfg)),
           (js ''author'', JStr (case auth of None \<Rightarrow> js ''txAdmin'' | Some a \<Rightarrow> a)),
           (js ''message'', JStr message)]"

section \<open>Concrete inputs\<close>

text \<open>
  A configuration with a one-second shutdown notice, and what the environment supplies
  to a call made at Unix time \<open>t\<close> whose process creation returns the handle \<open>ch\<close>.
\<close>

definition example_cfg :: txConfig where
  "example_cfg =
     \<lparr>shutdownNoticeDelayMs = 1000, restartSpawnDelayMs = 750, dataPath = Some (js ''/srv/data''),
      cfgPath = Some (js ''server.cfg''), serverName = js ''srv''\<rparr>"

definition example_host :: "int \<Rightarrow> child \<Rightarrow> host" where
  "example_host t ch =
     \<lparr>dateNow = t * 1000, translated = js ''bye'', stdinWrite = WriteReturns True, killClock = t + 1,
      mutex = js ''Ab3dE'', vars = \<lparr>command = js ''FXServer'', args = [js ''+exec'', js ''server.cfg'']\<rparr>,
      validated = Resolved \<lparr>errors = None, warnings = None, connectEndpoint = js ''127.0.0.1:30120''\<rparr>,
      spawned = ch, spawnClock = t + 2\<rparr>"

text \<open>A history of one record with the given four timestamps.\<close>

definition with_last :: "stamp \<Rightarrow> stamp \<Rightarrow> stamp \<Rightarrow> stamp \<Rightarrow> fxrunner" where
  "with_last st k x c =
     constructor\<lparr>history := [\<lparr>pid = js ''4242'', timestamps = \<lparr>start = st, kill = k, exit = x, close = c\<rparr>\<rparr>]\<rparr>"

text \<open>The state after a first \<open>spawnServer\<close> whose process creation returned no pid.\<close>

definition failed_spawn_state :: fxrunner where
  "failed_spawn_state =
     snd (spawnServer example_cfg (example_host 1700000000 \<lparr>child_pid = None\<rparr>) True constructor)"

text \<open>A validator that reports the error text \<open>bad\<close>, and one that reports a warning only.\<close>

definition rejecting_host :: host where
  "rejecting_host =
     (example_host 1700000000 \<lparr>child_pid = Some 4242\<rparr>)
       \<lparr>validated := Resolved \<lparr>errors = Some (js ''bad''), warnings = None, connectEndpoint = []\<rparr>\<rparr>"

definition warning_result :: validation_result where
  "warning_result = \<lparr>errors = None, warnings = Some (js ''careful''), connectEndpoint = js ''127.0.0.1:30120''\<rparr>"

definition warning_host :: host where
  "warning_host = (example_host 1700000000 \<lparr>child_pid = Some 4244\<rparr>)\<lparr>validated := Resolved warning_result\<rparr>"

text \<open>
  Another module has set the delay override to five seconds; then \<open>restartServer\<close> is
  called twice, a hundred seconds apart.
\<close>

definition override_state :: fxrunner where
  "override_state = constructor\<lparr>restartSpawnDelayOverride := 5000\<rparr>"

definition after_first_restart :: fxrunner where
  "after_first_restart =
     snd (restartServer example_cfg (example_host 1700000000 \<lparr>child_pid = Some 4242\<rparr>) None None override_state)"

definition after_second_restart :: fxrunner where
  "after_second_restart =
     snd (restartServer example_cfg (example_host 1700000100 \<lparr>child_pid = Some 4243\<rparr>) None None
            after_first_restart)"

text \<open>A call of \<open>killServer\<close> half a second after the kill request of the first restart.\<close>

definition soon_host :: host where
  "soon_host = (example_host 1700000000 \<lparr>child_pid = Some 4243\<rparr>)\<lparr>dateNow := 1700000000500\<rparr>"

text \<open>Two runs of events: a spawn followed by a kill, and the end of one instance followed by the next spawn.\<close>

definition first_events :: "(txConfig \<times> event) list" where
  "first_events =
     [(example_cfg, SpawnBegin (js ''Ab3dE'') \<lparr>command = js ''FXServer'', args = [js ''+exec'', js ''server.cfg'']\<rparr>),
      (example_cfg, SpawnValidated
         (Resolved \<lparr>errors = None, warnings = None, connectEndpoint = js ''127.0.0.1:30120''\<rparr>)
         True \<lparr>child_pid = Some 4242\<rparr> 1700000002),
      (example_cfg, KillBegin 1700000100000 None None False (js ''bye'') (WriteReturns True)),
      (example_cfg, KillEnd 1700000101 None)]"




section \<open>Properties of the command API\<close>

subsection \<open>Integers that print as their decimal text\<close>

lemma bit_length_lower: "0 < n \<Longrightarrow> 2 ^ (bit_length n - 1) \<le> n"
proof (induction n rule: bit_length.induct)
  case (1 n)
  show ?case
  proof (cases "n div 2 = 0")
    case True
    with "1.prems" show ?thesis by (simp add: bit_length.simps [of n] bit_length.simps [of 0])
  next
    case False
    then have pos: "0 < n div 2" by simp
    with "1.IH" "1.prems" have ih: "2 ^ (bit_length (n div 2) - 1) \<le> n div 2" by simp
    from pos have "0 < bit_length (n div 2)" by (simp add: bit_length.simps [of "n div 2"])
    then have "2 ^ (bit_length n - 1) = (2::nat) * 2 ^ (bit_length (n div 2) - 1)"
      using "1.prems" by (simp add: bit_length.simps [of n] power_Suc [symmetric] del: power_Suc)
    also have "\<dots> \<le> 2 * (n div 2)" using ih by simp
    also have "\<dots> \<le> n" by simp
    finally show ?thesis .
  qed
qed

lemma bit_length_upper: "n < 2 ^ bit_length n"
proof (induction n rule: bit_length.induct)
  case (1 n)
  show ?case
  proof (cases "n = 0")
    case True
    then show ?thesis by simp
  next
    case False
    with "1.IH" have "n div 2 < 2 ^ bit_length (n div 2)" by simp
    then have "n < 2 * 2 ^ bit_length (n div 2)" by linarith
    with False show ?thesis by (simp add: bit_length.simps [of n])
  qed
qed

lemma to_double_small: "m < 2 ^ 53 \<Longrightarrow> to_double m = m"
  by (simp add: to_double_def)

lemma to_double_large:
  assumes "2 ^ 53 \<le> m"
  shows "2 ^ 53 \<le> to_double m"
proof -
  define b where "b = bit_length m"
  define u :: nat where "u = 2 ^ (b - 53)"
  have "m < 2 ^ b" unfolding b_def by (rule bit_length_upper)
  with assms have "(2::nat) ^ 53 < 2 ^ b" by linarith
  have b: "53 < b"
  proof (rule ccontr)
    assume "\<not> 53 < b"
    then have "b \<le> 53" by simp
    then have "(2::nat) ^ b \<le> 2 ^ 53" by (rule power_increasing) simp
    with \<open>(2::nat) ^ 53 < 2 ^ b\<close> show False by linarith
  qed
  from assms have "0 < m" by (simp add: order_less_le_trans [of 0 "2 ^ 53"])
  then have "2 ^ (b - 1) \<le> m" unfolding b_def by (rule bit_length_lower)
  moreover have "(2::nat) ^ (b - 1) = 2 ^ 52 * u"
  proof -
    from b have e: "b - 1 = 52 + (b - 53)" by simp
    show ?thesis unfolding u_def by (subst e) (rule power_add)
  qed
  ultimately have "2 ^ 52 * u \<le> m" by simp
  moreover have upos: "0 < u" by (simp add: u_def)
  ultimately have q: "2 ^ 52 \<le> m div u"
    by (simp add: less_eq_div_iff_mult_less_eq)
  from b have "(2::nat) \<le> u" unfolding u_def
    using power_increasing [of 1 "b - 53" "2::nat"] by simp
  with q have "2 ^ 52 * 2 \<le> (m div u) * u" by (intro mult_le_mono)
  then have qu: "2 ^ 53 \<le> (m div u) * u" by simp
  then have "2 ^ 53 \<le> (m div u + 1) * u" by (simp add: add_mult_distrib) 
  with qu assms show ?thesis
    by (simp add: to_double_def Let_def b_def [symmetric] u_def [symmetric])
qed

lemma shortest_safe: "x < 2 ^ 53 \<Longrightarrow> shortest x p = x"
proof (induction p)
  case 0
  then show ?case by simp
next
  case (Suc p)
  define w :: nat where "w = 10 ^ Suc p"
  define lo where "lo = (x div w) * w"
  have wpos: "0 < w" by (simp add: w_def)
  have lo: "lo \<le> x" by (simp add: lo_def)
  have hi: "x < lo + w" unfolding lo_def using wpos
    by (metis add.commute dividend_less_times_div mult.commute)
  from lo Suc.prems have l: "to_double lo = lo" by (simp add: to_double_small)
  have h: "to_double (lo + w) \<noteq> x"
  proof (cases "lo + w < 2 ^ 53")
    case True
    with hi show ?thesis by (simp add: to_double_small)
  next
    case False
    then have "2 ^ 53 \<le> lo + w" by simp
    then have "2 ^ 53 \<le> to_double (lo + w)" by (rule to_double_large)
    with Suc.prems show ?thesis by linarith
  qed
  from Suc l h show ?case
    by (simp add: Let_def w_def [symmetric] lo_def [symmetric] del: power_Suc)
qed

lemma Number_toString_safe: "safe_integer n \<Longrightarrow> Number_toString n = decimal n"
proof -
  assume "safe_integer n"
  then have a: "\<bar>n\<bar> < 2 ^ 53" by (simp only: safe_integer_def)
  have s: "nat_toString x = digits x" if "x < 2 ^ 53" for x
  proof -
    from that have "x < 10 ^ 21" by simp
    with that show ?thesis by (simp add: nat_toString_def shortest_safe)
  qed
  from a have "nat \<bar>n\<bar> < 2 ^ 53"
    by (metis nat_less_numeral_power_cancel_iff)
  with s [of "nat \<bar>n\<bar>"] show ?thesis
    by (auto simp: Number_toString_def decimal_def abs_if split: if_splits)
qed

subsection \<open>The line built\<close>

lemma sanitize_is_escape: "sanitizeArgString x = spec_escape x"
  by (induction x)
    (simp_all add: sanitizeArgString_def spec_escape_def dquote_def newline_def space_def
      fullwidth_quote_def)

lemma word_char_plain: "is_word_char c \<Longrightarrow> c \<noteq> dquote \<and> c \<noteq> newline"
  by (auto simp: is_word_char_def dquote_def newline_def)

lemma sanitize_word: "list_all is_word_char x \<Longrightarrow> sanitizeArgString x = x"
  by (induction x) (auto simp: sanitizeArgString_def dest: word_char_plain)

lemma args_encode:
  "\<forall>a\<in>set as. accepted a \<Longrightarrow>
   sendCommand_args acc as = Inr (acc @ concat (map (\<lambda>a. space # spec_encode_arg a) as))"
proof (induction as arbitrary: acc)
  case Nil
  then show ?case by simp
next
  case (Cons a as)
  then show ?case
    by (cases a) (simp_all add: spec_encode_arg_def sanitize_is_escape Number_toString_safe)
qed

lemma rawInput_encode:
  assumes "word_only name" and "\<forall>a\<in>set as. accepted a"
  shows "sendCommand_rawInput (VStr name) (Some as) = Inr (spec_encode name as)"
  using assms
  by (simp add: sendCommand_rawInput_def spec_encode_def args_encode sanitize_word word_only_def)













subsection \<open>Rejected calls\<close>

lemma args_reject:
  "\<not> list_all accepted as \<Longrightarrow>
   sendCommand_args acc as = Inl (Error (js ''arg expected to be string or object''))"
proof (induction as arbitrary: acc)
  case Nil
  then show ?case by simp
next
  case (Cons a as)
  then show ?case by (cases a) (simp_all split: if_splits)
qed

lemma rawInput_bad_name:
  "\<not> valid_name cmdName \<Longrightarrow>
   sendCommand_rawInput cmdName (Some as) =
     Inl (Error (if (\<exists>name. cmdName = VStr name \<and> name \<noteq> []) then js ''invalid cmdName string''
                 else js ''cmdName is empty''))"
  by (cases cmdName) (auto simp: sendCommand_rawInput_def)

text \<open>
  C7, as amended. \<open>sendCommand\<close> first returns \<open>false\<close> when there is no child, whatever
  its arguments are. When a child exists: a command name that is not a string, is empty
  or has a character other than word characters raises an error (\<open>cmdName is empty\<close> or
  \<open>invalid cmdName string\<close>), and with a valid name an argument that is not a string, an
  object or an integer raises \<open>arg expected to be string or object\<close>; the state is
  untouched in each case.
\<close>

theorem sendCommand_rejects_with_child:
  "(fxChild s \<noteq> None \<and> \<not> valid_name cmdName \<longrightarrow>
      sendCommand wr cmdName (Some as) auth s =
        (Inl (Error (if (\<exists>name. cmdName = VStr name \<and> name \<noteq> []) then js ''invalid cmdName string''
                     else js ''cmdName is empty'')), s))
   \<and> (fxChild s \<noteq> None \<and> valid_name cmdName \<and> \<not> list_all accepted as \<longrightarrow>
      sendCommand wr cmdName (Some as) auth s =
        (Inl (Error (js ''arg expected to be string or object'')), s))
   \<and> (fxChild s = None \<longrightarrow> sendCommand wr cmdName cmdArgs auth s = (Inr False, s))"
proof (intro conjI impI)
  show "sendCommand wr cmdName (Some as) auth s =
        (Inl (Error (if (\<exists>name. cmdName = VStr name \<and> name \<noteq> []) then js ''invalid cmdName string''
                     else js ''cmdName is empty'')), s)"
    if "fxChild s \<noteq> None \<and> \<not> valid_name cmdName"
    using that rawInput_bad_name [of cmdName as] by (simp add: sendCommand_def)
  show "sendCommand wr cmdName (Some as) auth s =
        (Inl (Error (js ''arg expected to be string or object'')), s)"
    if h: "fxChild s \<noteq> None \<and> valid_name cmdName \<and> \<not> list_all accepted as"
  proof -
    from h obtain name where n: "cmdName = VStr name" "word_only name"
      by (cases cmdName) auto
    then have "name \<noteq> []" by (simp add: word_only_def)
    with h n show ?thesis
      by (simp add: sendCommand_def sendCommand_rawInput_def args_reject)
  qed
  show "sendCommand wr cmdName cmdArgs auth s = (Inr False, s)" if "fxChild s = None"
    using that by (simp add: sendCommand_def)
qed

text \<open>
  The claim as worded fails without a child: an empty name and a fractional argument
  raise nothing, the call returns \<open>false\<close>.
\<close>

theorem sendCommand_no_child_counterexample:
  "sendCommand (WriteReturns True) (VStr []) (Some [VNonInt]) NoAuthor constructor = (Inr False, constructor)
   \<and> \<not> valid_name (VStr []) \<and> \<not> accepted VNonInt \<and> fxChild constructor = None"
  by (simp add: sendCommand_def constructor_def word_only_def)

section \<open>Properties of the status projection\<close>

text \<open>
  C2. \<open>getStatus\<close> depends on the history only. An empty history gives \<open>not started\<close>.
  Otherwise, for the last record: with \<open>start\<close> set and \<open>kill\<close> absent it gives \<open>closed\<close>
  when \<open>exit\<close> and \<open>close\<close> are set, \<open>closing\<close> when \<open>exit\<close> is set and \<open>close\<close> is not,
  \<open>spawned\<close> when neither is set; with \<open>start\<close> and \<open>kill\<close> set it gives \<open>kill pending: \<close>
  followed by the names of the absent fields joined by a comma and a space when \<open>exit\<close>
  or \<open>close\<close> is absent, and \<open>killed\<close> when all four are set. A record with \<open>start\<close> and
  \<open>kill\<close> set and the other two absent gives \<open>kill pending: exit, close\<close>. (Set means
  truthy, as the code tests it.)
\<close>

theorem getStatus_projection:
  "(history s' = history s \<longrightarrow> getStatus s' = getStatus s)
   \<and> (history s = [] \<longrightarrow> getStatus s = Inr (js ''not started''))
   \<and> (history s \<noteq> [] \<longrightarrow>
        (let ts = timestamps (last (history s)) in
          (truthy (start ts) \<and> \<not> truthy (kill ts) \<longrightarrow>
              (truthy (exit ts) \<and> truthy (close ts) \<longrightarrow> getStatus s = Inr (js ''closed''))
            \<and> (truthy (exit ts) \<and> \<not> truthy (close ts) \<longrightarrow> getStatus s = Inr (js ''closing''))
            \<and> (\<not> truthy (exit ts) \<and> \<not> truthy (close ts) \<longrightarrow> getStatus s = Inr (js ''spawned'')))
        \<and> (truthy (start ts) \<and> truthy (kill ts) \<longrightarrow>
              (\<not> (truthy (exit ts) \<and> truthy (close ts)) \<longrightarrow>
                 getStatus s = Inr (js ''kill pending: '' @ join (js '', '')
                   (map key_name (filter (\<lambda>k. \<not> truthy (stamp_of ts k)) [Kstart, Kkill, Kexit, Kclose]))))
            \<and> (truthy (exit ts) \<and> truthy (close ts) \<longrightarrow> getStatus s = Inr (js ''killed'')))))
   \<and> (t1 \<noteq> 0 \<and> t2 \<noteq> 0 \<longrightarrow>
        getStatus (s\<lparr>history := h @ [\<lparr>pid = p, timestamps = \<lparr>start = At t1, kill = At t2, exit = Absent, close = Absent\<rparr>\<rparr>]\<rparr>)
          = Inr (js ''kill pending: exit, close''))"
proof (intro conjI impI)
  show "getStatus s' = getStatus s" if "history s' = history s"
    using that by (simp add: getStatus_def)
  show "getStatus s = Inr (js ''not started'')" if "history s = []"
    using that by (simp add: getStatus_def)
  show "let ts = timestamps (last (history s)) in
          (truthy (start ts) \<and> \<not> truthy (kill ts) \<longrightarrow>
              (truthy (exit ts) \<and> truthy (close ts) \<longrightarrow> getStatus s = Inr (js ''closed''))
            \<and> (truthy (exit ts) \<and> \<not> truthy (close ts) \<longrightarrow> getStatus s = Inr (js ''closing''))
            \<and> (\<not> truthy (exit ts) \<and> \<not> truthy (close ts) \<longrightarrow> getStatus s = Inr (js ''spawned'')))
        \<and> (truthy (start ts) \<and> truthy (kill ts) \<longrightarrow>
              (\<not> (truthy (exit ts) \<and> truthy (close ts)) \<longrightarrow>
                 getStatus s = Inr (js ''kill pending: '' @ join (js '', '')
                   (map key_name (filter (\<lambda>k. \<not> truthy (stamp_of ts k)) [Kstart, Kkill, Kexit, Kclose]))))
            \<and> (truthy (exit ts) \<and> truthy (close ts) \<longrightarrow> getStatus s = Inr (js ''killed'')))"
    if "history s \<noteq> []"
    using that
    by (auto simp: getStatus_def Let_def pending_keys_def timestamps_keys_def last_conv_nth)
  show "getStatus (s\<lparr>history := h @ [\<lparr>pid = p, timestamps = \<lparr>start = At t1, kill = At t2, exit = Absent, close = Absent\<rparr>\<rparr>]\<rparr>)
          = Inr (js ''kill pending: exit, close'')" if "t1 \<noteq> 0 \<and> t2 \<noteq> 0"
    using that
    by (simp add: getStatus_def Let_def pending_keys_def timestamps_keys_def js_def)
qed

theorem getStatus_projection_witness:
  "getStatus constructor = Inr (js ''not started'')
   \<and> getStatus (with_last (At 100) Absent Absent Absent) = Inr (js ''spawned'')
   \<and> getStatus (with_last (At 100) Absent (At 130) Absent) = Inr (js ''closing'')
   \<and> getStatus (with_last (At 100) Absent (At 130) (At 131)) = Inr (js ''closed'')
   \<and> getStatus (with_last (At 100) (At 120) Absent Absent) = Inr (js ''kill pending: exit, close'')
   \<and> getStatus (with_last (At 100) (At 120) (At 130) Absent) = Inr (js ''kill pending: close'')
   \<and> getStatus (with_last (At 100) (At 120) (At 130) (At 131)) = Inr (js ''killed'')"
  using getStatus_projection [where s = constructor and s' = constructor]
    getStatus_projection [where s = "with_last (At 100) Absent Absent Absent" and s' = constructor]
    getStatus_projection [where s = "with_last (At 100) Absent (At 130) Absent" and s' = constructor]
    getStatus_projection [where s = "with_last (At 100) Absent (At 130) (At 131)" and s' = constructor]
    getStatus_projection [where s = "with_last (At 100) (At 120) Absent Absent" and s' = constructor]
    getStatus_projection [where s = "with_last (At 100) (At 120) (At 130) Absent" and s' = constructor]
    getStatus_projection [where s = "with_last (At 100) (At 120) (At 130) (At 131)" and s' = constructor]
  by (simp add: with_last_def constructor_def Let_def js_def)

section \<open>What each segment leaves alone\<close>

lemma emit_fields [simp]:
  "history (emit es s) = history s"
  "fxChild (emit es s) = fxChild s"
  "lastKillRequest (emit es s) = lastKillRequest s"
  "restartSpawnDelayOverride (emit es s) = restartSpawnDelayOverride s"
  "currentMutex (emit es s) = currentMutex s"
  "spawnVariables (emit es s) = spawnVariables s"
  "trace (emit es s) = trace s @ es"
  by (simp_all add: emit_def)

lemma sendRawCommand_fields:
  "history (snd (sendRawCommand wr cmd auth s)) = history s"
  "fxChild (snd (sendRawCommand wr cmd auth s)) = fxChild s"
  "lastKillRequest (snd (sendRawCommand wr cmd auth s)) = lastKillRequest s"
  "restartSpawnDelayOverride (snd (sendRawCommand wr cmd auth s)) = restartSpawnDelayOverride s"
  "currentMutex (snd (sendRawCommand wr cmd auth s)) = currentMutex s"
  by (simp_all add: sendRawCommand_def split: option.splits write_outcome.splits)

lemma sendCommand_fields:
  "history (snd (sendCommand wr n as auth s)) = history s"
  "fxChild (snd (sendCommand wr n as auth s)) = fxChild s"
  "lastKillRequest (snd (sendCommand wr n as auth s)) = lastKillRequest s"
  "restartSpawnDelayOverride (snd (sendCommand wr n as auth s)) = restartSpawnDelayOverride s"
  "currentMutex (snd (sendCommand wr n as auth s)) = currentMutex s"
  by (simp_all add: sendCommand_def sendRawCommand_fields split: sum.splits)

lemma sendEvent_fields:
  "history (snd (sendEvent wr t d s)) = history s"
  "fxChild (snd (sendEvent wr t d s)) = fxChild s"
  "lastKillRequest (snd (sendEvent wr t d s)) = lastKillRequest s"
  "restartSpawnDelayOverride (snd (sendEvent wr t d s)) = restartSpawnDelayOverride s"
  "currentMutex (snd (sendEvent wr t d s)) = currentMutex s"
  by (simp_all add: sendEvent_def case_prod_beta sendCommand_fields split: jsval.splits sum.splits)

lemma sendEvent_returns:
  "t \<noteq> [] \<Longrightarrow> \<exists>r. fst (sendEvent wr (VStr t) d s) = Inr r"
  by (auto simp: sendEvent_def case_prod_beta split: sum.splits)

lemma spawnServer_begin_fields:
  "history (snd (spawnServer_begin cfg m sv s)) = history s"
  "fxChild (snd (spawnServer_begin cfg m sv s)) = fxChild s"
  "lastKillRequest (snd (spawnServer_begin cfg m sv s)) = lastKillRequest s"
  "restartSpawnDelayOverride (snd (spawnServer_begin cfg m sv s)) = restartSpawnDelayOverride s"
  by (simp_all add: spawnServer_begin_def Let_def)

lemma spawnServer_validated_fields:
  "lastKillRequest (snd (spawnServer_validated cfg v a ch now s)) = lastKillRequest s"
  "restartSpawnDelayOverride (snd (spawnServer_validated cfg v a ch now s)) = restartSpawnDelayOverride s"
  by (simp_all add: spawnServer_validated_def Let_def split: validation.splits option.splits)

lemma spawnServer_validated_history:
  "history (snd (spawnServer_validated cfg v a ch now s)) = history s \<or>
   (\<exists>p. history (snd (spawnServer_validated cfg v a ch now s)) =
      history s @ [\<lparr>pid = p, timestamps = \<lparr>start = At now, kill = Absent, exit = Absent, close = Absent\<rparr>\<rparr>])"
  by (simp add: spawnServer_validated_def Let_def split: validation.splits option.splits)

lemma on_close_fields:
  "lastKillRequest (snd (on_close p i c now s)) = lastKillRequest s"
  "restartSpawnDelayOverride (snd (on_close p i c now s)) = restartSpawnDelayOverride s"
  by (simp_all add: on_close_def Let_def)

lemma on_close_history:
  "history (snd (on_close p i c now s)) = history s \<or>
   (i < length (history s) \<and> history (snd (on_close p i c now s)) =
      (history s)[i := (history s ! i)\<lparr>timestamps := (timestamps (history s ! i))\<lparr>close := At now\<rparr>\<rparr>])"
  by (simp add: on_close_def Let_def)

lemma on_exit_fields:
  "lastKillRequest (snd (on_exit p i now s)) = lastKillRequest s"
  "restartSpawnDelayOverride (snd (on_exit p i now s)) = restartSpawnDelayOverride s"
  by (simp_all add: on_exit_def Let_def)

lemma on_exit_history:
  "history (snd (on_exit p i now s)) = history s \<or>
   (i < length (history s) \<and> history (snd (on_exit p i now s)) =
      (history s)[i := (history s ! i)\<lparr>timestamps := (timestamps (history s ! i))\<lparr>exit := At now\<rparr>\<rparr>])"
  by (simp add: on_exit_def Let_def)

lemma killServer_catch_fields:
  "history (snd (killServer_catch s)) = history s"
  "lastKillRequest (snd (killServer_catch s)) = lastKillRequest s"
  "restartSpawnDelayOverride (snd (killServer_catch s)) = restartSpawnDelayOverride s"
  by (simp_all add: killServer_catch_def)

lemma killServer_begin_fields:
  "history (snd (killServer_begin cfg t reason auth r m wr s)) = history s"
  "restartSpawnDelayOverride (snd (killServer_begin cfg t reason auth r m wr s)) = restartSpawnDelayOverride s"
  by (simp_all add: killServer_begin_def Let_def case_prod_beta sendEvent_fields killServer_catch_fields
      split: sum.splits)

lemma killServer_end_fields:
  "lastKillRequest (snd (killServer_end now reason s)) = lastKillRequest s"
  "restartSpawnDelayOverride (snd (killServer_end now reason s)) = restartSpawnDelayOverride s"
  by (simp_all add: killServer_end_def killServer_cleanup_def killServer_catch_def Let_def split: option.splits)

lemma killServer_end_history:
  "history (snd (killServer_end now reason s)) = history s \<or>
   (history s \<noteq> [] \<and> history (snd (killServer_end now reason s)) =
      (history s)[length (history s) - 1 :=
        (history s ! (length (history s) - 1))\<lparr>timestamps :=
           (timestamps (history s ! (length (history s) - 1)))\<lparr>kill := At now\<rparr>\<rparr>])"
  by (simp add: killServer_end_def killServer_cleanup_def killServer_catch_def Let_def split: option.splits)

lemma restartServer_delay_fields:
  "history (restartServer_delay cfg s) = history s"
  "lastKillRequest (restartServer_delay cfg s) = lastKillRequest s"
  "restartSpawnDelayOverride (restartServer_delay cfg s) = restartSpawnDelayOverride s"
  by (simp_all add: restartServer_delay_def)

lemmas segment_fields =
  sendRawCommand_fields sendCommand_fields sendEvent_fields spawnServer_begin_fields
  spawnServer_validated_fields on_close_fields on_exit_fields killServer_begin_fields
  killServer_end_fields restartServer_delay_fields on_disconnect_def on_error_def

lemma step_keeps_override: "restartSpawnDelayOverride (step cfg e s) = restartSpawnDelayOverride s"
  by (cases e) (simp_all add: segment_fields)

lemma step_keeps_lastKillRequest:
  "\<not> is_KillBegin e \<Longrightarrow> lastKillRequest (step cfg e s) = lastKillRequest s"
  by (cases e) (simp_all add: segment_fields)

lemma run_keeps_lastKillRequest:
  "\<not> list_ex is_KillBegin (map snd es) \<Longrightarrow> lastKillRequest (run es s) = lastKillRequest s"
  by (induction es s rule: run.induct) (simp_all add: step_keeps_lastKillRequest)

lemma history_grows_refl: "history_grows h h"
  by (simp add: history_grows_def record_kept_def)


lemma history_grows_push:
  "now \<noteq> 0 \<Longrightarrow> history_grows h (h @ [\<lparr>pid = p, timestamps = \<lparr>start = At now, kill = k, exit = x, close = c\<rparr>\<rparr>])"
  by (auto simp: history_grows_def record_kept_def nth_append)

lemma history_grows_update:
  "i < length h \<Longrightarrow> record_kept (h ! i) r \<Longrightarrow> history_grows h (h[i := r])"
  by (auto simp: history_grows_def record_kept_def nth_list_update)

lemma step_history_grows:
  assumes "clock_ok e"
  shows "history_grows (history s) (history (step cfg e s))"
proof (cases e)
  case (SpawnValidated v a ch now)
  with assms have "now \<noteq> 0" by simp
  with SpawnValidated spawnServer_validated_history [of cfg v a ch now s] show ?thesis
    by (auto simp: history_grows_refl history_grows_push)
next
  case (OnClose p i c now)
  with assms have "now \<noteq> 0" by simp
  with OnClose on_close_history [of p i c now s] show ?thesis
    by (auto simp: history_grows_refl record_kept_def intro!: history_grows_update)
next
  case (OnExit p i now)
  with assms have "now \<noteq> 0" by simp
  with OnExit on_exit_history [of p i now s] show ?thesis
    by (auto simp: history_grows_refl record_kept_def intro!: history_grows_update)
next
  case (KillEnd now reason)
  with assms have "now \<noteq> 0" by simp
  with KillEnd killServer_end_history [of now reason s] show ?thesis
    by (auto simp: history_grows_refl record_kept_def intro!: history_grows_update)
qed (simp_all add: segment_fields history_grows_refl)


lemma all_started_grows:
  assumes "all_started h" and "history_grows h h'"
  shows "all_started h'"
  unfolding all_started_def list_all_length
proof (intro allI impI)
  fix i assume i: "i < length h'"
  show "truthy (start (timestamps (h' ! i)))"
  proof (cases "i < length h")
    case True
    with assms have "truthy (start (timestamps (h ! i)))" "record_kept (h ! i) (h' ! i)"
      by (simp_all add: all_started_def list_all_length history_grows_def)
    then show ?thesis by (simp add: record_kept_def)
  next
    case False
    with assms i show ?thesis by (simp add: history_grows_def)
  qed
qed

lemma reachable_started: "reachable s \<Longrightarrow> all_started (history s)"
proof (induction rule: reachable.induct)
  case initial
  then show ?case by (simp add: constructor_def all_started_def)
next
  case (after s e cfg)
  then show ?case
    using all_started_grows step_history_grows by blast
qed

lemma startsWith_append: "startsWith (a @ b) a"
  by (induction a) simp_all

lemma started_status:
  assumes "all_started (history s)"
  shows "\<exists>l. getStatus s = Inr l \<and> live_label l \<and> l \<noteq> js ''spawn ready''
           \<and> \<not> startsWith l (js ''spawn awaiting last: '')"
proof (cases "history s = []")
  case True
  then show ?thesis
    by (simp add: getStatus_def live_label_def js_def)
next
  case False
  then have "length (history s) - 1 < length (history s)" by simp
  with assms have st: "truthy (start (timestamps (history s ! (length (history s) - 1))))"
    unfolding all_started_def list_all_length by blast
  have kp: "live_label (js ''kill pending: '' @ x) \<and> js ''kill pending: '' @ x \<noteq> js ''spawn ready''
      \<and> \<not> startsWith (js ''kill pending: '' @ x) (js ''spawn awaiting last: '')" for x
    by (simp add: live_label_def startsWith_append) (simp add: js_def)
  have others: "live_label (js ''killed'')" "live_label (js ''closing'')" "live_label (js ''closed'')"
    "live_label (js ''spawned'')"
    by (simp_all add: live_label_def)
  have others2: "js ''killed'' \<noteq> js ''spawn ready'' \<and> \<not> startsWith (js ''killed'') (js ''spawn awaiting last: '')"
    "js ''closing'' \<noteq> js ''spawn ready'' \<and> \<not> startsWith (js ''closing'') (js ''spawn awaiting last: '')"
    "js ''closed'' \<noteq> js ''spawn ready'' \<and> \<not> startsWith (js ''closed'') (js ''spawn awaiting last: '')"
    "js ''spawned'' \<noteq> js ''spawn ready'' \<and> \<not> startsWith (js ''spawned'') (js ''spawn awaiting last: '')"
    by (simp_all add: js_def)
  from False st show ?thesis
    using kp others others2
    by (simp add: getStatus_def Let_def)
qed

text \<open>
  C10. In every state reached from the constructor's by segments of \<open>spawnServer\<close>,
  \<open>killServer\<close>, \<open>restartServer\<close>, the command calls and the listeners, with clock
  readings after the epoch, every record of the history has \<open>start\<close> set; so \<open>getStatus\<close>
  does not throw and returns \<open>not started\<close>, \<open>spawned\<close>, \<open>killed\<close>, \<open>closing\<close>, \<open>closed\<close>
  or a label that begins \<open>kill pending: \<close>, never \<open>spawn ready\<close> and never one that begins
  \<open>spawn awaiting last: \<close>.
\<close>

theorem reachable_status_labels:
  "reachable s \<Longrightarrow>
     all_started (history s)
     \<and> (\<exists>l. getStatus s = Inr l \<and> live_label l \<and> l \<noteq> js ''spawn ready''
           \<and> \<not> startsWith l (js ''spawn awaiting last: ''))"
  using reachable_started started_status by blast

section \<open>Killing, spawning and restarting\<close>

lemma word_txaEvent: "word_only (js ''txaEvent'')"
  by (simp add: js_def word_only_def is_word_char_def)

lemma word_serverShuttingDown: "word_only (js ''serverShuttingDown'')"
  by (simp add: js_def word_only_def is_word_char_def)

lemma nonempty_serverShuttingDown: "js ''serverShuttingDown'' \<noteq> []"
  by (simp add: js_def)

lemma cfg_ok: "isConfigured example_cfg"
  by (simp add: isConfigured_def example_cfg_def js_def)

lemma killServer_begin_accepted:
  assumes "\<not> msTimestamp - lastKillRequest s < shutdownNoticeDelayMs cfg"
  shows "killServer_begin cfg msTimestamp reason auth isRestarting message wr s =
     (Suspends,
      emit [SendAnnouncement (if isRestarting then js ''warning'' else js ''danger'')
              (js ''server_actions.'' @ (if isRestarting then js ''restarting'' else js ''stopping'') @ js ''_discord''),
            Sleep (max (shutdownNoticeDelayMs cfg) 250)]
        (snd (sendEvent wr (VStr (js ''serverShuttingDown''))
           (JObj [(js ''delay'', JNum (shutdownNoticeDelayMs cfg)),
                  (js ''author'', JStr (case auth of None \<Rightarrow> js ''txAdmin'' | Some a \<Rightarrow> a)),
                  (js ''message'', JStr message)])
           (s\<lparr>lastKillRequest := msTimestamp\<rparr>))))"
proof -
  obtain r where "fst (sendEvent wr (VStr (js ''serverShuttingDown''))
           (JObj [(js ''delay'', JNum (shutdownNoticeDelayMs cfg)),
                  (js ''author'', JStr (case auth of None \<Rightarrow> js ''txAdmin'' | Some a \<Rightarrow> a)),
                  (js ''message'', JStr message)])
           (s\<lparr>lastKillRequest := msTimestamp\<rparr>)) = Inr r"
    using sendEvent_returns [OF nonempty_serverShuttingDown] by blast
  with assms show ?thesis
    by (simp add: killServer_begin_def Let_def case_prod_beta emit_def)
qed

lemma sendRawCommand_trace:
  "e \<in> set (trace (snd (sendRawCommand wr cmd auth s))) \<Longrightarrow>
   e \<in> set (trace s) \<or> (\<exists>c l. e = StdinWrite c l) \<or> (\<exists>a l. e = LogAdminCommand a l) \<or>
   (\<exists>l. e = LogSystemCommand l) \<or> (\<exists>l m. e = Console l m) \<or> e = ConsoleDir"
  by (auto simp: sendRawCommand_def split: option.splits write_outcome.splits author.splits if_splits)

lemma sendCommand_trace:
  "e \<in> set (trace (snd (sendCommand wr n as auth s))) \<Longrightarrow>
   e \<in> set (trace s) \<or> (\<exists>c l. e = StdinWrite c l) \<or> (\<exists>a l. e = LogAdminCommand a l) \<or>
   (\<exists>l. e = LogSystemCommand l) \<or> (\<exists>l m. e = Console l m) \<or> e = ConsoleDir"
  using sendRawCommand_trace
  by (auto simp: sendCommand_def split: sum.splits if_splits)

lemma sendEvent_trace:
  "e \<in> set (trace (snd (sendEvent wr t d s))) \<Longrightarrow>
   e \<in> set (trace s) \<or> (\<exists>c l. e = StdinWrite c l) \<or> (\<exists>a l. e = LogAdminCommand a l) \<or>
   (\<exists>l. e = LogSystemCommand l) \<or> (\<exists>l m. e = Console l m) \<or> e = ConsoleDir"
  using sendCommand_trace [of e wr "VStr (js ''txaEvent'')" _ NoAuthor s]
  by (auto simp: sendEvent_def case_prod_beta split: jsval.splits sum.splits if_splits)

lemma sendEvent_no_child:
  "fxChild s = None \<Longrightarrow> t \<noteq> [] \<Longrightarrow> sendEvent wr (VStr t) d s = (Inr False, s)"
  by (simp add: sendEvent_def sendCommand_def)

lemma sendEvent_notice:
  assumes "fxChild s = Some ch" and "word_only t"
  shows "sendEvent (WriteReturns ok) (VStr t) d s =
     (Inr ok, emit [StdinWrite ch (spec_encode (js ''txaEvent'') [VStr t, VObj d] @ [newline]),
                    LogSystemCommand (spec_encode (js ''txaEvent'') [VStr t, VObj d])] s)"
proof -
  have "sendCommand_rawInput (VStr (js ''txaEvent'')) (Some [VStr t, VObj d])
      = Inr (spec_encode (js ''txaEvent'') [VStr t, VObj d])"
    by (rule rawInput_encode) (simp_all add: word_txaEvent)
  moreover from assms have "t \<noteq> []" by (auto simp: word_only_def)
  ultimately show ?thesis
    using assms by (simp add: sendEvent_def sendCommand_def sendRawCommand_def)
qed

lemma after_first_restart_eq:
  "after_first_restart =
     \<lparr>spawnVariables = Some \<lparr>command = js ''FXServer'', args = [js ''+exec'', js ''server.cfg'']\<rparr>,
      fxChild = Some \<lparr>child_pid = Some 4242\<rparr>, restartSpawnDelayOverride = 5000,
      history = [\<lparr>pid = Number_toString 4242,
                  timestamps = \<lparr>start = At 1700000002, kill = Absent, exit = Absent, close = Absent\<rparr>\<rparr>],
      lastKillRequest = 1700000000000, fxServerHost = Some (js ''127.0.0.1:30120''),
      currentMutex = Some (js ''Ab3dE''),
      trace =
        [SendAnnouncement (js ''warning'') (js ''server_actions.'' @ js ''restarting'' @ js ''_discord''),
         Sleep 1000, ResourcesHandleServerStop, PlayerlistHandleServerStop None,
         LogServerClose (js ''no reason provided''),
         Console Lwarn (js ''Restarting the fxserver with delay override '' @ Number_toString 5000),
         Sleep 5000, ResetToken,
         Console Lverbose_log (js ''Spawn Variables: '' @ join [space] [js ''+exec'', js ''server.cfg'']),
         ResetMonitorStats, BufferPlayerlist (Some (js ''Ab3dE'')),
         SpawnProcess \<lparr>command = js ''FXServer'', args = [js ''+exec'', js ''server.cfg'']\<rparr>
           (Some (js ''/srv/data'')) \<lparr>child_pid = Some 4242\<rparr>,
         Console Lok (js ''>> ['' @ Number_toString 4242 @ js ''] FXServer Started!''),
         LogFxserverBoot (Number_toString 4242), PushRefresh, AttachListeners 0]\<rparr>"
proof -
  have k: "killServer example_cfg (example_host 1700000000 \<lparr>child_pid = Some 4242\<rparr>) None None True override_state
     = (None, override_state\<lparr>lastKillRequest := 1700000000000,
          trace := [SendAnnouncement (js ''warning'') (js ''server_actions.'' @ js ''restarting'' @ js ''_discord''),
            Sleep 1000, ResourcesHandleServerStop, PlayerlistHandleServerStop None,
            LogServerClose (js ''no reason provided'')]\<rparr>)"
    by (simp add: killServer_def killServer_begin_accepted sendEvent_no_child
        nonempty_serverShuttingDown killServer_end_def killServer_cleanup_def reasonString_def
        override_state_def constructor_def example_host_def example_cfg_def emit_def)
  show ?thesis
    unfolding after_first_restart_def restartServer_def k
    by (simp add: restartServer_delay_def spawnServer_def spawnServer_begin_def
        spawnServer_validated_def Let_def cfg_ok [unfolded example_cfg_def] override_state_def
        constructor_def example_host_def emit_def example_cfg_def)
qed

lemma second_restart_sleeps:
  "count_list (trace after_second_restart) (Sleep 5000) = 2
   \<and> count_list (trace after_second_restart) (Sleep 750) = 0"
proof -
  let ?line = "spec_encode (js ''txaEvent'')
      [VStr (js ''serverShuttingDown''),
       VObj (JObj [(js ''delay'', JNum 1000), (js ''author'', JStr (js ''txAdmin'')),
                   (js ''message'', JStr (js ''bye''))])]"
  have k: "killServer example_cfg (example_host 1700000100 \<lparr>child_pid = Some 4243\<rparr>) None None True
        after_first_restart
     = (None, after_first_restart\<lparr>fxChild := None,
          history := [\<lparr>pid = Number_toString 4242,
                  timestamps = \<lparr>start = At 1700000002, kill = At 1700000101, exit = Absent, close = Absent\<rparr>\<rparr>],
          lastKillRequest := 1700000100000,
          trace := trace after_first_restart @
            [StdinWrite \<lparr>child_pid = Some 4242\<rparr> (?line @ [newline]), LogSystemCommand ?line,
             SendAnnouncement (js ''warning'') (js ''server_actions.'' @ js ''restarting'' @ js ''_discord''),
             Sleep 1000, ChildKill \<lparr>child_pid = Some 4242\<rparr>, ResourcesHandleServerStop,
             PlayerlistHandleServerStop (Some (js ''Ab3dE'')),
             LogServerClose (js ''no reason provided'')]\<rparr>)"
    unfolding after_first_restart_eq
    by (simp add: killServer_def killServer_begin_accepted sendEvent_notice word_serverShuttingDown
        killServer_end_def killServer_cleanup_def reasonString_def
        example_host_def example_cfg_def emit_def Let_def)
  show ?thesis
    unfolding after_second_restart_def restartServer_def k
    unfolding after_first_restart_eq
    by (simp add: restartServer_delay_def spawnServer_def spawnServer_begin_def
        spawnServer_validated_def Let_def cfg_ok [unfolded example_cfg_def]
        example_host_def emit_def example_cfg_def)
qed

lemma after_first_restart_facts:
  "fxChild after_first_restart = Some \<lparr>child_pid = Some 4242\<rparr>"
  "lastKillRequest after_first_restart = 1700000000000"
  "restartSpawnDelayOverride after_first_restart = 5000"
  "history after_first_restart \<noteq> []"
  "map timestamps (history after_first_restart) =
     [\<lparr>start = At 1700000002, kill = Absent, exit = Absent, close = Absent\<rparr>]"
  "currentMutex after_first_restart = Some (js ''Ab3dE'')"
  "spawnVariables after_first_restart = Some \<lparr>command = js ''FXServer'', args = [js ''+exec'', js ''server.cfg'']\<rparr>"
  by (simp_all add: after_first_restart_eq)

lemma failed_spawn_facts:
  "fxChild failed_spawn_state = Some \<lparr>child_pid = None\<rparr>"
  "history failed_spawn_state = []"
  "lastKillRequest failed_spawn_state = 0"
  "ResourcesHandleServerStop \<notin> set (trace failed_spawn_state)"
  by (simp_all add: failed_spawn_state_def spawnServer_def spawnServer_begin_def
      spawnServer_validated_def Let_def constructor_def example_host_def cfg_ok emit_def)

text \<open>
  C3. A \<open>killServer\<close> call whose \<open>Date.now()\<close> is less than \<open>shutdownNoticeDelayMs\<close> after
  \<open>lastKillRequest\<close> returns \<open>Restart already in progress.\<close> and leaves the whole state
  as it was, the trace of effects included. \<open>lastKillRequest\<close> is the time of the last
  accepted request: after a request accepted at time \<open>earlier\<close> and any events other than
  the first segment of a \<open>killServer\<close>, a call less than the delay after \<open>earlier\<close> is
  rejected in that way.
\<close>

theorem killServer_debounce:
  "(dateNow h - lastKillRequest s < shutdownNoticeDelayMs cfg \<longrightarrow>
      killServer_begin cfg (dateNow h) reason auth isRestarting (translated h) (stdinWrite h) s
        = (Finished (Some msg_in_progress), s)
      \<and> killServer cfg h reason auth isRestarting s = (Some msg_in_progress, s))
   \<and> (\<not> earlier - lastKillRequest before < shutdownNoticeDelayMs earlier_cfg
       \<and> \<not> list_ex is_KillBegin (map snd es)
       \<and> dateNow h - earlier < shutdownNoticeDelayMs cfg \<longrightarrow>
      killServer cfg h reason auth isRestarting
         (run es (snd (killServer_begin earlier_cfg earlier earlier_reason earlier_auth wasRestarting earlier_message earlier_wr before)))
       = (Some msg_in_progress,
          run es (snd (killServer_begin earlier_cfg earlier earlier_reason earlier_auth wasRestarting earlier_message earlier_wr before))))"
proof (intro conjI impI)
  assume "dateNow h - lastKillRequest s < shutdownNoticeDelayMs cfg"
  then show "killServer_begin cfg (dateNow h) reason auth isRestarting (translated h) (stdinWrite h) s
        = (Finished (Some msg_in_progress), s)"
    and "killServer cfg h reason auth isRestarting s = (Some msg_in_progress, s)"
    by (simp_all add: killServer_def killServer_begin_def)
next
  assume a: "\<not> earlier - lastKillRequest before < shutdownNoticeDelayMs earlier_cfg
       \<and> \<not> list_ex is_KillBegin (map snd es)
       \<and> dateNow h - earlier < shutdownNoticeDelayMs cfg"
  let ?s1 = "snd (killServer_begin earlier_cfg earlier earlier_reason earlier_auth wasRestarting earlier_message earlier_wr before)"
  from a have "lastKillRequest ?s1 = earlier"
    by (simp add: killServer_begin_accepted sendEvent_fields)
  with a have "lastKillRequest (run es ?s1) = earlier"
    by (simp add: run_keeps_lastKillRequest)
  with a show "killServer cfg h reason auth isRestarting (run es ?s1) = (Some msg_in_progress, run es ?s1)"
    by (simp add: killServer_def killServer_begin_def)
qed

theorem killServer_debounce_witness:
  "killServer example_cfg soon_host None None False after_first_restart
     = (Some msg_in_progress, after_first_restart)
   \<and> killServer example_cfg soon_host None None False
        (run [(example_cfg, OnDisconnect (js ''4242'')), (example_cfg, OnExit (js ''4242'') 0 1700000000)]
           (snd (killServer_begin example_cfg 1700000000000 None None False (js ''bye'') (WriteReturns True)
                   constructor)))
     = (Some msg_in_progress,
        run [(example_cfg, OnDisconnect (js ''4242'')), (example_cfg, OnExit (js ''4242'') 0 1700000000)]
           (snd (killServer_begin example_cfg 1700000000000 None None False (js ''bye'') (WriteReturns True)
                   constructor)))"
  using killServer_debounce
      [where h = soon_host and s = after_first_restart and cfg = example_cfg and earlier = 1700000000000
         and before = constructor and earlier_cfg = example_cfg
         and es = "[(example_cfg, OnDisconnect (js ''4242'')), (example_cfg, OnExit (js ''4242'') 0 1700000000)]"
         and reason = None and auth = None and isRestarting = False
         and earlier_reason = None and earlier_auth = None and wasRestarting = False
         and earlier_message = "js ''bye''" and earlier_wr = "WriteReturns True"]
  by (simp add: soon_host_def example_host_def example_cfg_def after_first_restart_facts constructor_def)

lemma killServer_begin_effects:
  assumes "\<not> msTimestamp - lastKillRequest s < shutdownNoticeDelayMs cfg"
  shows "\<exists>s1. killServer_begin cfg msTimestamp reason auth isRestarting message wr s = (Suspends, s1)
         \<and> fxChild s1 = fxChild s \<and> history s1 = history s
         \<and> trace s1 =
             trace (snd (sendEvent wr (VStr (js ''serverShuttingDown'')) (shutdown_data cfg auth message)
                      (s\<lparr>lastKillRequest := msTimestamp\<rparr>)))
             @ [SendAnnouncement (if isRestarting then js ''warning'' else js ''danger'')
                  (js ''server_actions.'' @ (if isRestarting then js ''restarting'' else js ''stopping'')
                     @ js ''_discord''),
                Sleep (max (shutdownNoticeDelayMs cfg) 250)]"
  by (simp add: killServer_begin_accepted [OF assms] sendEvent_fields shutdown_data_def)

lemma shutdown_notice_written:
  assumes "fxChild s = Some ch"
  shows "trace (snd (sendEvent (WriteReturns ok) (VStr (js ''serverShuttingDown''))
                 (shutdown_data cfg auth message) (s\<lparr>lastKillRequest := msTimestamp\<rparr>))) =
        trace s @
          [StdinWrite ch (spec_encode (js ''txaEvent'')
              [VStr (js ''serverShuttingDown''), VObj (shutdown_data cfg auth message)] @ [newline]),
           LogSystemCommand (spec_encode (js ''txaEvent'')
              [VStr (js ''serverShuttingDown''), VObj (shutdown_data cfg auth message)])]"
  using assms by (simp add: sendEvent_notice word_serverShuttingDown)

lemma killServer_end_with_child:
  assumes "fxChild s = Some ch" and "history s \<noteq> []"
  shows "fst (killServer_end now reason s) = None
        \<and> fxChild (snd (killServer_end now reason s)) = None
        \<and> history (snd (killServer_end now reason s)) =
            (history s)[length (history s) - 1 :=
               (last (history s))\<lparr>timestamps := (timestamps (last (history s)))\<lparr>kill := At now\<rparr>\<rparr>]
        \<and> trace (snd (killServer_end now reason s)) =
            trace s @ [ChildKill ch, ResourcesHandleServerStop,
                        PlayerlistHandleServerStop (currentMutex s), LogServerClose (reasonString reason)]"
  using assms by (simp add: killServer_end_def killServer_cleanup_def Let_def last_conv_nth)

lemma killServer_end_without_child:
  assumes "fxChild s = None"
  shows "fst (killServer_end now reason s) = None
        \<and> fxChild (snd (killServer_end now reason s)) = None
        \<and> history (snd (killServer_end now reason s)) = history s
        \<and> trace (snd (killServer_end now reason s)) =
            trace s @ [ResourcesHandleServerStop, PlayerlistHandleServerStop (currentMutex s),
                        LogServerClose (reasonString reason)]"
  using assms by (simp add: killServer_end_def killServer_cleanup_def)

text \<open>
  C4, as amended. An accepted \<open>killServer\<close> suspends with a requested sleep of exactly
  \<open>max(shutdownNoticeDelayMs, 250)\<close> as its last effect, after the shutdown notice (written
  to the child's stdin when a child exists) and the announcement. When it resumes: if a
  child handle is present and the history is not empty, it signals the child, clears the
  handle, stamps \<open>kill\<close> on the last record, runs the three cleanup collaborators and
  returns null; if no handle is present it runs the three cleanup collaborators only and
  returns null.
\<close>

theorem killServer_accepted_sequence:
  "(\<not> msTimestamp - lastKillRequest s < shutdownNoticeDelayMs cfg \<longrightarrow>
      (\<exists>s1. killServer_begin cfg msTimestamp reason auth isRestarting message wr s = (Suspends, s1)
         \<and> fxChild s1 = fxChild s \<and> history s1 = history s
         \<and> trace s1 =
             trace (snd (sendEvent wr (VStr (js ''serverShuttingDown'')) (shutdown_data cfg auth message)
                      (s\<lparr>lastKillRequest := msTimestamp\<rparr>)))
             @ [SendAnnouncement (if isRestarting then js ''warning'' else js ''danger'')
                  (js ''server_actions.'' @ (if isRestarting then js ''restarting'' else js ''stopping'')
                     @ js ''_discord''),
                Sleep (max (shutdownNoticeDelayMs cfg) 250)]))
   \<and> (fxChild s = Some ch \<longrightarrow>
        trace (snd (sendEvent (WriteReturns ok) (VStr (js ''serverShuttingDown''))
                 (shutdown_data cfg auth message) (s\<lparr>lastKillRequest := msTimestamp\<rparr>))) =
        trace s @
          [StdinWrite ch (spec_encode (js ''txaEvent'')
              [VStr (js ''serverShuttingDown''), VObj (shutdown_data cfg auth message)] @ [newline]),
           LogSystemCommand (spec_encode (js ''txaEvent'')
              [VStr (js ''serverShuttingDown''), VObj (shutdown_data cfg auth message)])])
   \<and> (fxChild s' = Some ch' \<and> history s' \<noteq> [] \<longrightarrow>
        fst (killServer_end now reason s') = None
        \<and> fxChild (snd (killServer_end now reason s')) = None
        \<and> history (snd (killServer_end now reason s')) =
            (history s')[length (history s') - 1 :=
               (last (history s'))\<lparr>timestamps := (timestamps (last (history s')))\<lparr>kill := At now\<rparr>\<rparr>]
        \<and> trace (snd (killServer_end now reason s')) =
            trace s' @ [ChildKill ch', ResourcesHandleServerStop,
                        PlayerlistHandleServerStop (currentMutex s'), LogServerClose (reasonString reason)])
   \<and> (fxChild s' = None \<longrightarrow>
        fst (killServer_end now reason s') = None
        \<and> fxChild (snd (killServer_end now reason s')) = None
        \<and> history (snd (killServer_end now reason s')) = history s'
        \<and> trace (snd (killServer_end now reason s')) =
            trace s' @ [ResourcesHandleServerStop, PlayerlistHandleServerStop (currentMutex s'),
                        LogServerClose (reasonString reason)])"
  using killServer_begin_effects [of msTimestamp s cfg reason auth isRestarting message wr]
    shutdown_notice_written [of s ch ok cfg auth message msTimestamp]
    killServer_end_with_child [of s' ch' now reason]
    killServer_end_without_child [of s' now reason]
  by blast

theorem killServer_accepted_sequence_witness:
  "(\<exists>s1. killServer_begin example_cfg 1700000100000 None None True (js ''bye'') (WriteReturns True)
            after_first_restart = (Suspends, s1)
        \<and> fxChild s1 = Some \<lparr>child_pid = Some 4242\<rparr>
        \<and> trace s1 =
            trace (snd (sendEvent (WriteReturns True) (VStr (js ''serverShuttingDown''))
                     (shutdown_data example_cfg None (js ''bye''))
                     (after_first_restart\<lparr>lastKillRequest := 1700000100000\<rparr>)))
            @ [SendAnnouncement (js ''warning'') (js ''server_actions.'' @ js ''restarting'' @ js ''_discord''),
               Sleep 1000])
   \<and> trace (snd (sendEvent (WriteReturns True) (VStr (js ''serverShuttingDown''))
                (shutdown_data example_cfg None (js ''bye''))
                (after_first_restart\<lparr>lastKillRequest := 1700000100000\<rparr>))) =
        trace after_first_restart @
          [StdinWrite \<lparr>child_pid = Some 4242\<rparr> (spec_encode (js ''txaEvent'')
              [VStr (js ''serverShuttingDown''), VObj (shutdown_data example_cfg None (js ''bye''))] @ [newline]),
           LogSystemCommand (spec_encode (js ''txaEvent'')
              [VStr (js ''serverShuttingDown''), VObj (shutdown_data example_cfg None (js ''bye''))])]
   \<and> fst (killServer_end 1700000101 None after_first_restart) = None
   \<and> fxChild (snd (killServer_end 1700000101 None after_first_restart)) = None
   \<and> trace (snd (killServer_end 1700000101 None after_first_restart)) =
        trace after_first_restart @
          [ChildKill \<lparr>child_pid = Some 4242\<rparr>, ResourcesHandleServerStop,
           PlayerlistHandleServerStop (Some (js ''Ab3dE'')), LogServerClose (reasonString None)]
   \<and> fst (killServer_end 1700000101 None constructor) = None
   \<and> history (snd (killServer_end 1700000101 None constructor)) = []"
  using killServer_accepted_sequence
      [where s = after_first_restart and s' = after_first_restart and cfg = example_cfg
         and msTimestamp = 1700000100000 and reason = None and auth = None and isRestarting = True
         and message = "js ''bye''" and wr = "WriteReturns True" and ok = True
         and ch = "\<lparr>child_pid = Some 4242\<rparr>" and ch' = "\<lparr>child_pid = Some 4242\<rparr>" and now = 1700000101]
    killServer_accepted_sequence
      [where s = constructor and s' = constructor and cfg = example_cfg
         and msTimestamp = 1700000100000 and reason = None and auth = None and isRestarting = True
         and message = "js ''bye''" and wr = "WriteReturns True" and ok = True and now = 1700000101]
  by (auto simp: after_first_restart_facts constructor_def example_cfg_def)

text \<open>
  The claim as worded fails after a spawn whose process creation returned no pid: the
  handle is set, the history is empty. An accepted \<open>killServer\<close> then signals the child
  and clears the handle, finds no record to stamp, returns the failure message and runs
  no cleanup.
\<close>

theorem killServer_empty_history_counterexample:
  "fxChild failed_spawn_state = Some \<lparr>child_pid = None\<rparr>
   \<and> history failed_spawn_state = []
   \<and> fst (killServer example_cfg (example_host 1700000100 \<lparr>child_pid = None\<rparr>) None None False
        failed_spawn_state) = Some msg_cannot_kill
   \<and> ChildKill \<lparr>child_pid = None\<rparr> \<in> set (trace (snd (killServer example_cfg
        (example_host 1700000100 \<lparr>child_pid = None\<rparr>) None None False failed_spawn_state)))
   \<and> history (snd (killServer example_cfg (example_host 1700000100 \<lparr>child_pid = None\<rparr>) None None False
        failed_spawn_state)) = []
   \<and> ResourcesHandleServerStop \<notin> set (trace (snd (killServer example_cfg
        (example_host 1700000100 \<lparr>child_pid = None\<rparr>) None None False failed_spawn_state)))"
proof -
  have acc: "\<not> dateNow (example_host 1700000100 \<lparr>child_pid = None\<rparr>) - lastKillRequest failed_spawn_state
      < shutdownNoticeDelayMs example_cfg"
    by (simp add: failed_spawn_facts example_host_def example_cfg_def)
  show ?thesis
    using failed_spawn_facts
    by (auto simp: killServer_def killServer_begin_accepted [OF acc] killServer_end_def
        killServer_catch_def sendEvent_fields dest: sendEvent_trace)
qed

lemma validated_errors:
  assumes "errors result = Some e" and "e \<noteq> []"
  shows "spawnServer_validated cfg (Resolved result) announce ch now s =
     (Inr (Some (errors_header @ e)), emit [Console Lerror (errors_header @ e)] s)"
  using assms by (simp add: spawnServer_validated_def Let_def)

lemma validated_warnings:
  assumes "\<not> truthy_str (errors result)" and "warnings result = Some w" and "w \<noteq> []"
    and "spawnVariables s = Some sv"
  shows "fxChild (snd (spawnServer_validated cfg (Resolved result) announce ch now s)) = Some ch
     \<and> (\<exists>es. trace (snd (spawnServer_validated cfg (Resolved result) announce ch now s)) =
            trace s @ [Console Lwarn (warnings_header @ w)] @ es
          \<and> SpawnProcess sv (dataPath cfg) ch \<in> set es)"
  using assms by (simp add: spawnServer_validated_def Let_def split: option.splits)

lemma spawnServer_errors:
  assumes "fxChild s = None" and "isConfigured cfg" and "validated h = Resolved result"
    and "errors result = Some e" and "e \<noteq> []"
  shows "fst (spawnServer cfg h announce s) = Inr (Some (errors_header @ e))
     \<and> fxChild (snd (spawnServer cfg h announce s)) = None
     \<and> history (snd (spawnServer cfg h announce s)) = history s
     \<and> trace (snd (spawnServer cfg h announce s)) =
         trace s @ [ResetToken, Console Lverbose_log (js ''Spawn Variables: '' @ join [space] (args (vars h))),
                    Console Lerror (errors_header @ e)]"
  using assms
  by (simp add: spawnServer_def spawnServer_begin_def Let_def validated_errors)

lemma spawnServer_warnings:
  assumes "fxChild s = None" and "isConfigured cfg" and "validated h = Resolved result"
    and "\<not> truthy_str (errors result)" and "warnings result = Some w" and "w \<noteq> []"
  shows "fxChild (snd (spawnServer cfg h announce s)) = Some (spawned h)
     \<and> (\<exists>es. trace (snd (spawnServer cfg h announce s)) =
            trace s @ [ResetToken,
                       Console Lverbose_log (js ''Spawn Variables: '' @ join [space] (args (vars h))),
                       Console Lwarn (warnings_header @ w)] @ es
          \<and> SpawnProcess (vars h) (dataPath cfg) (spawned h) \<in> set es)"
  using assms
  by (simp add: spawnServer_def spawnServer_begin_def spawnServer_validated_def Let_def
      split: option.splits)

text \<open>
  C5, as amended. When the validator reports errors, \<open>spawnServer\<close> returns the fixed
  header line followed by the validator's error text and does nothing else but log that
  message: no process is created, the handle and the history stay as they were. When it
  reports no errors but warnings, \<open>spawnServer\<close> logs them under the warning header and
  goes on to create the process.
\<close>

theorem spawnServer_validation_outcomes:
  "(errors result = Some e \<and> e \<noteq> [] \<longrightarrow>
      spawnServer_validated cfg (Resolved result) announce ch now s =
        (Inr (Some (errors_header @ e)), emit [Console Lerror (errors_header @ e)] s))
   \<and> (fxChild s = None \<and> isConfigured cfg \<and> validated h = Resolved result
        \<and> errors result = Some e \<and> e \<noteq> [] \<longrightarrow>
      fst (spawnServer cfg h announce s) = Inr (Some (errors_header @ e))
      \<and> fxChild (snd (spawnServer cfg h announce s)) = None
      \<and> history (snd (spawnServer cfg h announce s)) = history s
      \<and> trace (snd (spawnServer cfg h announce s)) =
          trace s @ [ResetToken, Console Lverbose_log (js ''Spawn Variables: '' @ join [space] (args (vars h))),
                     Console Lerror (errors_header @ e)])
   \<and> (\<not> truthy_str (errors result) \<and> warnings result = Some w \<and> w \<noteq> []
        \<and> spawnVariables s = Some sv \<longrightarrow>
      fxChild (snd (spawnServer_validated cfg (Resolved result) announce ch now s)) = Some ch
      \<and> (\<exists>es. trace (snd (spawnServer_validated cfg (Resolved result) announce ch now s)) =
             trace s @ [Console Lwarn (warnings_header @ w)] @ es
           \<and> SpawnProcess sv (dataPath cfg) ch \<in> set es))
   \<and> (fxChild s = None \<and> isConfigured cfg \<and> validated h = Resolved result
        \<and> \<not> truthy_str (errors result) \<and> warnings result = Some w \<and> w \<noteq> [] \<longrightarrow>
      fxChild (snd (spawnServer cfg h announce s)) = Some (spawned h)
      \<and> (\<exists>es. trace (snd (spawnServer cfg h announce s)) =
             trace s @ [ResetToken,
                        Console Lverbose_log (js ''Spawn Variables: '' @ join [space] (args (vars h))),
                        Console Lwarn (warnings_header @ w)] @ es
           \<and> SpawnProcess (vars h) (dataPath cfg) (spawned h) \<in> set es))"
  using validated_errors [of result e cfg announce ch now s]
    spawnServer_errors [of s cfg h result e announce]
    validated_warnings [of result w s sv cfg announce ch now]
    spawnServer_warnings [of s cfg h result w announce]
  by blast

theorem spawnServer_validation_outcomes_witness:
  "fst (spawnServer example_cfg rejecting_host True constructor) = Inr (Some (errors_header @ js ''bad''))
   \<and> fxChild (snd (spawnServer example_cfg rejecting_host True constructor)) = None
   \<and> history (snd (spawnServer example_cfg rejecting_host True constructor)) = []
   \<and> fxChild (snd (spawnServer_validated example_cfg (Resolved warning_result) False
         \<lparr>child_pid = Some 4244\<rparr> 1700000200 after_first_restart)) = Some \<lparr>child_pid = Some 4244\<rparr>
   \<and> (\<exists>es. trace (snd (spawnServer_validated example_cfg (Resolved warning_result) False
                \<lparr>child_pid = Some 4244\<rparr> 1700000200 after_first_restart)) =
             trace after_first_restart @ [Console Lwarn (warnings_header @ js ''careful'')] @ es
           \<and> SpawnProcess \<lparr>command = js ''FXServer'', args = [js ''+exec'', js ''server.cfg'']\<rparr>
                (dataPath example_cfg) \<lparr>child_pid = Some 4244\<rparr> \<in> set es)
   \<and> fxChild (snd (spawnServer example_cfg warning_host False constructor)) = Some \<lparr>child_pid = Some 4244\<rparr>
   \<and> (\<exists>es. trace (snd (spawnServer example_cfg warning_host False constructor)) =
             [ResetToken,
              Console Lverbose_log (js ''Spawn Variables: '' @ join [space] [js ''+exec'', js ''server.cfg'']),
              Console Lwarn (warnings_header @ js ''careful'')] @ es
           \<and> SpawnProcess \<lparr>command = js ''FXServer'', args = [js ''+exec'', js ''server.cfg'']\<rparr>
                (dataPath example_cfg) \<lparr>child_pid = Some 4244\<rparr> \<in> set es)"
  using spawnServer_validation_outcomes
      [where result = warning_result and w = "js ''careful''" and s = constructor
         and cfg = example_cfg and h = warning_host and announce = False]
    spawnServer_validation_outcomes
      [where result = "\<lparr>errors = Some (js ''bad''), warnings = None, connectEndpoint = []\<rparr>"
         and e = "js ''bad''" and s = constructor and cfg = example_cfg and h = rejecting_host
         and announce = True]
    spawnServer_validation_outcomes
      [where result = warning_result and w = "js ''careful''" and s = after_first_restart
         and sv = "\<lparr>command = js ''FXServer'', args = [js ''+exec'', js ''server.cfg'']\<rparr>"
         and cfg = example_cfg and announce = False and ch = "\<lparr>child_pid = Some 4244\<rparr>"
         and now = 1700000200]
  by (simp add: after_first_restart_facts constructor_def cfg_ok rejecting_host_def example_host_def
      warning_result_def warning_host_def js_def)

text \<open>
  The claim as worded fails on the text: for the validator error \<open>bad\<close> the caller gets
  the header followed by \<open>bad\<close>.
\<close>

theorem spawnServer_error_text_counterexample:
  "fst (spawnServer example_cfg rejecting_host True constructor) = Inr (Some (errors_header @ js ''bad''))
   \<and> fst (spawnServer example_cfg rejecting_host True constructor) \<noteq> Inr (Some (js ''bad''))"
proof -
  have "fst (spawnServer example_cfg rejecting_host True constructor) = Inr (Some (errors_header @ js ''bad''))"
    using spawnServer_errors [of constructor example_cfg rejecting_host
        "\<lparr>errors = Some (js ''bad''), warnings = None, connectEndpoint = []\<rparr>" "js ''bad''" True]
    by (simp add: cfg_ok constructor_def rejecting_host_def example_host_def js_def)
  moreover have "errors_header @ js ''bad'' \<noteq> js ''bad''"
    by (simp add: errors_header_def js_def)
  ultimately show ?thesis by simp
qed

lemma killServer_keeps_override:
  "restartSpawnDelayOverride (snd (killServer cfg h reason auth r s)) = restartSpawnDelayOverride s"
  by (simp add: killServer_def case_prod_beta killServer_begin_fields killServer_end_fields
      split: segment.splits)

lemma spawnServer_keeps_override:
  "restartSpawnDelayOverride (snd (spawnServer cfg h a s)) = restartSpawnDelayOverride s"
  by (simp add: spawnServer_def case_prod_beta spawnServer_begin_fields spawnServer_validated_fields
      split: segment.splits)

lemma restartServer_keeps_override:
  "restartSpawnDelayOverride (snd (restartServer cfg h reason auth s)) = restartSpawnDelayOverride s"
  by (simp add: restartServer_def case_prod_beta killServer_keeps_override spawnServer_keeps_override
      restartServer_delay_fields)

lemma spawnServer_begin_trace: "\<exists>es. trace (snd (spawnServer_begin cfg m sv s)) = trace s @ es"
  by (simp add: spawnServer_begin_def Let_def)

lemma spawnServer_validated_trace:
  "\<exists>es. trace (snd (spawnServer_validated cfg v a ch now s)) = trace s @ es"
  by (simp add: spawnServer_validated_def Let_def split: validation.splits option.splits)

lemma spawnServer_trace: "\<exists>es. trace (snd (spawnServer cfg h a s)) = trace s @ es"
proof (cases "spawnServer_begin cfg (mutex h) (vars h) s")
  case (Pair r s1)
  with spawnServer_begin_trace [of cfg "mutex h" "vars h" s]
  obtain es1 where e1: "trace s1 = trace s @ es1" by auto
  show ?thesis
  proof (cases r)
    case (Finished x)
    with Pair e1 show ?thesis by (simp add: spawnServer_def)
  next
    case Suspends
    obtain es2 where "trace (snd (spawnServer_validated cfg (validated h) a (spawned h) (spawnClock h) s1))
        = trace s1 @ es2"
      using spawnServer_validated_trace by blast
    with Pair Suspends e1 show ?thesis by (simp add: spawnServer_def)
  qed
qed

lemma restart_sleeps_override:
  assumes "fst (killServer cfg h reason auth True s) = None" and "restartSpawnDelayOverride s \<noteq> 0"
  shows "\<exists>es. trace (snd (restartServer cfg h reason auth s)) =
           trace (snd (killServer cfg h reason auth True s))
           @ [Console Lwarn (js ''Restarting the fxserver with delay override '' @
                Number_toString (restartSpawnDelayOverride s)),
              Sleep (restartSpawnDelayOverride s)] @ es"
proof -
  let ?k = "snd (killServer cfg h reason auth True s)"
  obtain es where "trace (snd (spawnServer cfg h False (restartServer_delay cfg ?k)))
      = trace (restartServer_delay cfg ?k) @ es"
    using spawnServer_trace by blast
  with assms show ?thesis
    by (simp add: restartServer_def case_prod_beta restartServer_delay_def killServer_keeps_override)
qed

lemma restart_sleeps_configured:
  assumes "fst (killServer cfg h reason auth True s) = None" and "restartSpawnDelayOverride s = 0"
  shows "\<exists>es. trace (snd (restartServer cfg h reason auth s)) =
           trace (snd (killServer cfg h reason auth True s)) @ [Sleep (restartSpawnDelayMs cfg)] @ es"
proof -
  let ?k = "snd (killServer cfg h reason auth True s)"
  obtain es where "trace (snd (spawnServer cfg h False (restartServer_delay cfg ?k)))
      = trace (restartServer_delay cfg ?k) @ es"
    using spawnServer_trace by blast
  with assms show ?thesis
    by (simp add: restartServer_def case_prod_beta restartServer_delay_def killServer_keeps_override)
qed

text \<open>
  C6, as amended. \<open>restartServer\<close> never changes \<open>restartSpawnDelayOverride\<close>, nor does any
  other segment. After a kill that returned null, a restart sleeps the override when it
  is not zero and the configured \<open>restartSpawnDelayMs\<close> when it is zero, right before the
  spawn; so an override stays in force for every later restart until it is assigned
  again.
\<close>

theorem restart_override_persists:
  "restartSpawnDelayOverride (snd (restartServer cfg h reason auth s)) = restartSpawnDelayOverride s
   \<and> restartSpawnDelayOverride (step cfg e s) = restartSpawnDelayOverride s
   \<and> (fst (killServer cfg h reason auth True s) = None \<and> restartSpawnDelayOverride s \<noteq> 0 \<longrightarrow>
        (\<exists>es. trace (snd (restartServer cfg h reason auth s)) =
           trace (snd (killServer cfg h reason auth True s))
           @ [Console Lwarn (js ''Restarting the fxserver with delay override '' @
                Number_toString (restartSpawnDelayOverride s)),
              Sleep (restartSpawnDelayOverride s)] @ es))
   \<and> (fst (killServer cfg h reason auth True s) = None \<and> restartSpawnDelayOverride s = 0 \<longrightarrow>
        (\<exists>es. trace (snd (restartServer cfg h reason auth s)) =
           trace (snd (killServer cfg h reason auth True s)) @ [Sleep (restartSpawnDelayMs cfg)] @ es))"
  using restartServer_keeps_override [of cfg h reason auth s] step_keeps_override [of cfg e s]
    restart_sleeps_override [of cfg h reason auth s] restart_sleeps_configured [of cfg h reason auth s]
  by blast

lemma killServer_null_without_child:
  assumes "fxChild s = None" and "\<not> dateNow h - lastKillRequest s < shutdownNoticeDelayMs cfg"
  shows "fst (killServer cfg h reason auth r s) = None"
  using assms
  by (simp add: killServer_def killServer_begin_accepted sendEvent_no_child
      nonempty_serverShuttingDown killServer_end_def killServer_cleanup_def)

theorem restart_override_persists_witness:
  "restartSpawnDelayOverride after_first_restart = 5000
   \<and> (\<exists>es. trace after_first_restart =
         trace (snd (killServer example_cfg (example_host 1700000000 \<lparr>child_pid = Some 4242\<rparr>) None None True
                  override_state))
         @ [Console Lwarn (js ''Restarting the fxserver with delay override '' @ Number_toString 5000),
            Sleep 5000] @ es)
   \<and> (\<exists>es. trace (snd (restartServer example_cfg (example_host 1700000000 \<lparr>child_pid = Some 4242\<rparr>)
                  None None constructor)) =
         trace (snd (killServer example_cfg (example_host 1700000000 \<lparr>child_pid = Some 4242\<rparr>) None None True
                  constructor))
         @ [Sleep 750] @ es)"
proof -
  have k1: "fst (killServer example_cfg (example_host 1700000000 \<lparr>child_pid = Some 4242\<rparr>) None None True
      override_state) = None"
    by (rule killServer_null_without_child)
      (simp_all add: override_state_def constructor_def example_host_def example_cfg_def)
  have k2: "fst (killServer example_cfg (example_host 1700000000 \<lparr>child_pid = Some 4242\<rparr>) None None True
      constructor) = None"
    by (rule killServer_null_without_child)
      (simp_all add: constructor_def example_host_def example_cfg_def)
  have o1: "restartSpawnDelayOverride override_state = 5000"
    and o2: "restartSpawnDelayOverride constructor = 0"
    and d: "restartSpawnDelayMs example_cfg = 750"
    by (simp_all add: override_state_def constructor_def example_cfg_def)
  show ?thesis
    using restart_override_persists
        [where cfg = example_cfg and h = "example_host 1700000000 \<lparr>child_pid = Some 4242\<rparr>"
           and reason = None and auth = None and s = override_state]
      restart_override_persists
        [where cfg = example_cfg and h = "example_host 1700000000 \<lparr>child_pid = Some 4242\<rparr>"
           and reason = None and auth = None and s = constructor]
    by (simp add: k1 k2 o1 o2 d after_first_restart_def [symmetric])
qed

text \<open>
  The claim as worded fails on the second restart: with the override at 5000 and the
  configured delay at 750, both restarts sleep 5000 and none sleeps 750.
\<close>

theorem restart_override_reused_counterexample:
  "restartSpawnDelayOverride override_state = 5000
   \<and> restartSpawnDelayMs example_cfg = 750
   \<and> count_list (trace after_first_restart) (Sleep 5000) = 1
   \<and> restartSpawnDelayOverride after_first_restart = 5000
   \<and> count_list (trace after_second_restart) (Sleep 5000) = 2
   \<and> count_list (trace after_second_restart) (Sleep 750) = 0"
  using second_restart_sleeps
  by (simp add: after_first_restart_eq override_state_def example_cfg_def)

section \<open>Runs of events\<close>

lemma run_reachable:
  "reachable s \<Longrightarrow> list_all clock_ok (map snd es) \<Longrightarrow> reachable (run es s)"
  by (induction es s rule: run.induct) (simp_all add: reachable.after)

theorem reachable_status_labels_witness:
  "reachable (run first_events constructor)
   \<and> all_started (history (run first_events constructor))
   \<and> (\<exists>l. getStatus (run first_events constructor) = Inr l \<and> live_label l \<and> l \<noteq> js ''spawn ready''
           \<and> \<not> startsWith l (js ''spawn awaiting last: ''))"
proof -
  have r: "reachable (run first_events constructor)"
    by (rule run_reachable [OF reachable.initial]) (simp add: first_events_def)
  with reachable_status_labels [OF r] show ?thesis by simp
qed

section \<open>Records are settled once written\<close>



















theorem sendCommand_rejects_with_child_witness:
  "sendCommand (WriteReturns True) (VStr (js ''bad name'')) (Some []) NoAuthor after_first_restart
     = (Inl (Error (js ''invalid cmdName string'')), after_first_restart)
   \<and> sendCommand (WriteReturns True) (VStr []) (Some []) NoAuthor after_first_restart
     = (Inl (Error (js ''cmdName is empty'')), after_first_restart)
   \<and> sendCommand (WriteReturns True) (VStr (js ''say'')) (Some [VStr (js ''hi''), VNonInt]) NoAuthor
        after_first_restart
     = (Inl (Error (js ''arg expected to be string or object'')), after_first_restart)
   \<and> sendCommand (WriteReturns True) (VStr (js ''bad name'')) (Some [VNonInt]) NoAuthor constructor
     = (Inr False, constructor)"
  using sendCommand_rejects_with_child
      [where s = after_first_restart and cmdName = "VStr (js ''bad name'')" and as = "[]"
         and wr = "WriteReturns True" and auth = NoAuthor]
    sendCommand_rejects_with_child
      [where s = after_first_restart and cmdName = "VStr []" and as = "[]"
         and wr = "WriteReturns True" and auth = NoAuthor]
    sendCommand_rejects_with_child
      [where s = after_first_restart and cmdName = "VStr (js ''say'')" and as = "[VStr (js ''hi''), VNonInt]"
         and wr = "WriteReturns True" and auth = NoAuthor]
    sendCommand_rejects_with_child
      [where s = constructor and cmdName = "VStr (js ''bad name'')" and cmdArgs = "Some [VNonInt]"
         and wr = "WriteReturns True" and auth = NoAuthor]
  by (simp add: after_first_restart_eq constructor_def js_def word_only_def is_word_char_def)

section \<open>The black hole never closes its window\<close>

lemma blackHole_keeps_time:
  "lastBlackHoleSpewTime (snd (chanEventBlackHole strict t m)) = lastBlackHoleSpewTime m"
  by (simp add: chanEventBlackHole_def Let_def)

lemma blackHole_events_keep_time:
  "lastBlackHoleSpewTime (blackHole_events strict ts m) = lastBlackHoleSpewTime m"
  by (induction ts arbitrary: m) (simp_all add: blackHole_keeps_time)

text \<open>
  C9, where the code departs from it. Three residual events within three milliseconds
  produce three diagnostics, in strict code and otherwise: no event ever changes
  \<open>lastBlackHoleSpewTime\<close>, so the five-second window never closes.
\<close>

theorem blackHole_logs_every_event:
  "diagnostics (blackHole_events True [1700000000000, 1700000000001, 1700000000002] module_loaded) = 3
   \<and> diagnostics (blackHole_events False [1700000000000, 1700000000001, 1700000000002] module_loaded) = 3
   \<and> lastBlackHoleSpewTime (blackHole_events strict ts m) = lastBlackHoleSpewTime m"
  by (simp add: blackHole_events_keep_time)
    (simp add: diagnostics_def chanEventBlackHole_def module_loaded_def blackHoleSpillMaxInterval_def Let_def)

end
